theory Spec2Isabelle
  imports Main "HOL-Library.Multiset"
begin

section \<open>Python values and exceptions\<close>

text \<open>
  The program handles decoded JSON: \<^verbatim>\<open>None\<close>, booleans, unbounded integers, floats,
  strings, lists and dictionaries. Floats are only passed through, never computed with,
  so their carrier is the type parameter \<open>'f\<close>. A character of a string stands for one
  code point. A dictionary is an association list in insertion order; a lookup takes the
  first binding of the key.
\<close>

datatype 'f json =
    JNull
  | JBool bool
  | JInt int
  | JFloat 'f
  | JStr string
  | JArr "'f json list"
  | JObj "(string \<times> 'f json) list"

text \<open>
  The exceptions the program can meet. \<open>request_error\<close> lists subclasses of
  \<^verbatim>\<open>requests.RequestException\<close> (the JSON decoding error is one of them since
  requests 2.27). Every constructor of \<open>exn\<close> is a subclass of \<^verbatim>\<open>Exception\<close>.
  The messages of library exceptions are abridged.
\<close>

datatype request_error =
    ConnectionError
  | Timeout
  | HTTPError nat
  | JSONDecodeError

datatype exn =
    RequestException request_error
  | AttributeError
  | TypeError
  | ValueError string
  | ArgumentError
  | FileExistsError
  | IsADirectoryError
  | EmptyDataError
  | DatabaseError string

text \<open>\<^verbatim>\<open>d.get(k, default)\<close> on a dictionary.\<close>

definition dict_get :: "(string \<times> 'f json) list \<Rightarrow> string \<Rightarrow> 'f json \<Rightarrow> 'f json" where
  "dict_get kvs k d = (case map_of kvs k of None \<Rightarrow> d | Some v \<Rightarrow> v)"

text \<open>
  \<^verbatim>\<open>item.get(k, default)\<close> on any value: only a dictionary has the method, every
  other value raises \<^verbatim>\<open>AttributeError\<close>.
\<close>

fun py_get :: "'f json \<Rightarrow> string \<Rightarrow> 'f json \<Rightarrow> exn + 'f json" where
  "py_get (JObj kvs) k d = Inr (dict_get kvs k d)"
| "py_get _ k d = Inl AttributeError"

text \<open>
  Iterating a value: a list gives its elements, a string its characters, a dictionary
  its keys; nothing else is iterable.
\<close>

fun py_iter :: "'f json \<Rightarrow> exn + 'f json list" where
  "py_iter (JArr xs) = Inr xs"
| "py_iter (JStr s) = Inr (map (\<lambda>c. JStr [c]) s)"
| "py_iter (JObj kvs) = Inr (map (\<lambda>kv. JStr (fst kv)) kvs)"
| "py_iter _ = Inl TypeError"

text \<open>\<^verbatim>\<open>sep.join(strings)\<close> on a list of strings.\<close>

fun join_strs :: "string \<Rightarrow> string list \<Rightarrow> string" where
  "join_strs sep [] = []"
| "join_strs sep [x] = x"
| "join_strs sep (x # y # ys) = x @ sep @ join_strs sep (y # ys)"

fun as_strs :: "'f json list \<Rightarrow> string list option" where
  "as_strs [] = Some []"
| "as_strs (JStr s # xs) = (case as_strs xs of None \<Rightarrow> None | Some ss \<Rightarrow> Some (s # ss))"
| "as_strs (_ # xs) = None"

text \<open>
  \<^verbatim>\<open>sep.join(v)\<close> on any value: \<^verbatim>\<open>TypeError\<close> when \<open>v\<close> is not iterable or
  one of its items is not a string.
\<close>

definition str_join :: "string \<Rightarrow> 'f json \<Rightarrow> exn + string" where
  "str_join sep v =
     (case py_iter v of
        Inl e \<Rightarrow> Inl e
      | Inr xs \<Rightarrow> (case as_strs xs of None \<Rightarrow> Inl TypeError | Some ss \<Rightarrow> Inr (join_strs sep ss)))"

section \<open>Doubles and the text of numbers\<close>

text \<open>
  What the program needs of floating point, as parameters: the double nearest to an
  integer, the value \<^verbatim>\<open>NaN\<close> that stands for a missing number, and the text
  \<^verbatim>\<open>str\<close> gives for a double.
\<close>

record 'f floats =
  float_of :: "int \<Rightarrow> 'f"
  nan :: "'f"
  float_text :: "'f \<Rightarrow> string"

text \<open>\<^verbatim>\<open>str(n)\<close> for an integer: its decimal digits, after a minus sign when negative.\<close>

function str_of_nat :: "nat \<Rightarrow> string" where
  "str_of_nat n =
     (if n < 10 then [''0123456789'' ! n]
      else str_of_nat (n div 10) @ [''0123456789'' ! (n mod 10)])"
  by pat_completeness auto
termination
  by (relation "measure id") auto

declare str_of_nat.simps [simp del]

definition str_of_int :: "int \<Rightarrow> string" where
  "str_of_int i = (if i < 0 then CHR ''-'' # str_of_nat (nat (- i)) else str_of_nat (nat i))"

text \<open>
  For the examples, a double is given by the text Python prints for it. \<open>float_of\<close> is
  then right for integers of fewer than seventeen digits.
\<close>

definition repr_floats :: "string floats" where
  "repr_floats = \<lparr>float_of = (\<lambda>i. str_of_int i @ ''.0''), nan = ''nan'', float_text = (\<lambda>x. x)\<rparr>"

section \<open>The tabular structure\<close>

text \<open>
  A dataframe is its column names and its rows, each row holding one cell per column.
\<close>

record 'f frame =
  columns :: "string list"
  rows :: "'f json list list"

fun unique :: "'a list \<Rightarrow> 'a list" where
  "unique [] = []"
| "unique (x # xs) = x # filter (\<lambda>y. y \<noteq> x) (unique xs)"

text \<open>
  pandas stores a column in one array and picks its type from the values
  (\<^verbatim>\<open>maybe_convert_objects\<close>, pandas 2). A text, a list, a dictionary or a boolean
  keeps the values as they are (an array of objects, or of booleans). Otherwise the
  column holds integers, doubles and \<^verbatim>\<open>None\<close> only. The values are scanned in order:
  an integer met before any \<^verbatim>\<open>None\<close> must fit in 64 bits, signed or unsigned, and
  signed and unsigned must not mix, or the values are kept as objects. If the scan
  passes and the column has a double or a \<^verbatim>\<open>None\<close> beside a number, it becomes an
  array of doubles: each integer becomes the double nearest to it and each \<^verbatim>\<open>None\<close>
  becomes \<^verbatim>\<open>NaN\<close>. A column of integers only, or of \<^verbatim>\<open>None\<close> only, keeps its
  values. An integer too large for any double is outside the model. (pandas 3 holds a
  \<^verbatim>\<open>None\<close> beside texts as \<^verbatim>\<open>NaN\<close>; the theorems below say of such a cell only
  that it is missing.)
\<close>

fun keeps_objects :: "'f json \<Rightarrow> bool" where
  "keeps_objects (JBool b) = True"
| "keeps_objects (JStr s) = True"
| "keeps_objects (JArr xs) = True"
| "keeps_objects (JObj kvs) = True"
| "keeps_objects _ = False"

fun is_null :: "'f json \<Rightarrow> bool" where
  "is_null JNull = True"
| "is_null _ = False"

fun is_int :: "'f json \<Rightarrow> bool" where
  "is_int (JInt i) = True"
| "is_int _ = False"

fun is_float :: "'f json \<Rightarrow> bool" where
  "is_float (JFloat x) = True"
| "is_float _ = False"

text \<open>
  The scan of the integers: \<open>seen_null\<close>, \<open>uint\<close> (an integer above the signed range was
  seen) and \<open>sint\<close> (a negative integer was seen) are the flags so far; the result tells
  whether the values must be kept as objects.
\<close>

fun int_scan :: "bool \<Rightarrow> bool \<Rightarrow> bool \<Rightarrow> 'f json list \<Rightarrow> bool" where
  "int_scan seen_null uint sint [] = False"
| "int_scan seen_null uint sint (JNull # vs) = int_scan True uint sint vs"
| "int_scan seen_null uint sint (JInt v # vs) =
     (if seen_null then int_scan seen_null uint sint vs
      else
        (let uint' = (uint \<or> (2 ^ 63 \<le> v \<and> v < 2 ^ 64));
             sint' = (sint \<or> v < 0)
         in if (uint' \<and> sint') \<or> 2 ^ 64 \<le> v \<or> v < - (2 ^ 63) then True
            else int_scan seen_null uint' sint' vs))"
| "int_scan seen_null uint sint (_ # vs) = int_scan seen_null uint sint vs"

fun to_float :: "'f floats \<Rightarrow> 'f json \<Rightarrow> 'f json" where
  "to_float np (JInt v) = JFloat (float_of np v)"
| "to_float np JNull = JFloat (nan np)"
| "to_float np v = v"

definition convert_column :: "'f floats \<Rightarrow> 'f json list \<Rightarrow> 'f json list" where
  "convert_column np col =
     (if list_ex keeps_objects col then col
      else if int_scan False False False col then col
      else if (list_ex is_null col \<or> list_ex is_float col) \<and>
              (list_ex is_int col \<or> list_ex is_float col)
      then map (to_float np) col
      else col)"

text \<open>
  \<open>DataFrame\<close> is the constructor applied to a list of dictionaries: the columns are the
  keys in order of first appearance, a key a dictionary lacks gives \<^verbatim>\<open>NaN\<close>, each
  column is stored as said above, and there is one row per dictionary. On the empty
  list there is no key, hence no column.
\<close>

definition DataFrame :: "'f floats \<Rightarrow> (string \<times> 'f json) list list \<Rightarrow> 'f frame" where
  "DataFrame np recs =
     (let cols = unique (concat (map (map fst) recs));
          arrays = map (\<lambda>c. convert_column np (map (\<lambda>r. dict_get r c (JFloat (nan np))) recs)) cols
      in \<lparr>columns = cols, rows = map (\<lambda>i. map (\<lambda>a. a ! i) arrays) [0..<length recs]\<rparr>)"

text \<open>The cells of a named column, when the frame has it.\<close>

definition column :: "'f frame \<Rightarrow> string \<Rightarrow> 'f json list option" where
  "column f name =
     (if name \<in> set (columns f)
      then Some (map (\<lambda>r. dict_get (zip (columns f) r) name JNull) (rows f))
      else None)"

section \<open>BookCleaner\<close>

record 'f BookCleaner =
  data :: "'f json"
  cleaned_data :: "'f frame option"

definition BookCleaner_init :: "'f json \<Rightarrow> 'f BookCleaner" where
  "BookCleaner_init list_of_json_data = \<lparr>data = list_of_json_data, cleaned_data = None\<rparr>"

text \<open>
  \<^verbatim>\<open>
  def clean_data(self):
      cleaned_data = []
      for item in self.data:
          flattened_item = {
              "title": item.get("title", ""),
              "author_name": ", ".join(item.get("author_name", [])),
              "first_publish_year": item.get("first_publish_year", ""),
              "ratings": item.get("ratings_sortable", ""),
          }
          cleaned_data.append(flattened_item)
      self.cleaned_data = pd.DataFrame(cleaned_data)
      return self.cleaned_data
  \<close>
  \<open>flattened_item\<close> is the dictionary display of the loop body; its entries are
  evaluated in order, and the first exception ends the evaluation.
\<close>

definition flattened_item :: "'f json \<Rightarrow> exn + (string \<times> 'f json) list" where
  "flattened_item item =
     (case py_get item ''title'' (JStr []) of
        Inl e \<Rightarrow> Inl e
      | Inr title \<Rightarrow>
     (case py_get item ''author_name'' (JArr []) of
        Inl e \<Rightarrow> Inl e
      | Inr authors \<Rightarrow>
     (case str_join '', '' authors of
        Inl e \<Rightarrow> Inl e
      | Inr joined \<Rightarrow>
     (case py_get item ''first_publish_year'' (JStr []) of
        Inl e \<Rightarrow> Inl e
      | Inr year \<Rightarrow>
     (case py_get item ''ratings_sortable'' (JStr []) of
        Inl e \<Rightarrow> Inl e
      | Inr ratings \<Rightarrow>
          Inr [(''title'', title), (''author_name'', JStr joined),
               (''first_publish_year'', year), (''ratings'', ratings)])))))"

text \<open>The \<^verbatim>\<open>for\<close> loop, with the list being built as accumulator.\<close>

fun clean_loop ::
  "'f json list \<Rightarrow> (string \<times> 'f json) list list \<Rightarrow> exn + (string \<times> 'f json) list list" where
  "clean_loop [] acc = Inr acc"
| "clean_loop (item # items) acc =
     (case flattened_item item of
        Inl e \<Rightarrow> Inl e
      | Inr row \<Rightarrow> clean_loop items (acc @ [row]))"

text \<open>
  \<open>clean_data\<close> returns the cleaner with the frame stored, and the frame. An exception
  leaves the cleaner as it was. \<open>np\<close> is the floating point the frame is built with.
\<close>

definition clean_data :: "'f floats \<Rightarrow> 'f BookCleaner \<Rightarrow> exn + ('f BookCleaner \<times> 'f frame)" where
  "clean_data np self =
     (case py_iter (data self) of
        Inl e \<Rightarrow> Inl e
      | Inr items \<Rightarrow>
          (case clean_loop items [] of
             Inl e \<Rightarrow> Inl e
           | Inr cleaned \<Rightarrow>
               (let df = DataFrame np cleaned
                in Inr (self\<lparr>cleaned_data := Some df\<rparr>, df))))"

section \<open>Console output and files\<close>

text \<open>
  What \<^verbatim>\<open>print\<close> writes: a fixed line, a prefix followed by the text of an
  exception, or the rendering of a frame.
\<close>

datatype 'f printed =
    Line string
  | ErrorLine string exn
  | FrameText "'f frame"

text \<open>
  A chart is its labels and its bars: a bar is a category (a text on the axis) with its
  height. The order of the bars along the axis is the plotting library's and is not
  modelled, so the bars are a multiset.
\<close>

record chart =
  chart_title :: string
  xlabel :: string
  ylabel :: string
  bars :: "(string \<times> nat) multiset"

text \<open>
  A file holds CSV records (lists of text fields, the header first), JSON, or an image
  of a chart. How a field is quoted inside a CSV line (the writer quotes a field holding
  a separator, a quote or a line break, and the reader undoes it) is below this model.
  Paths are plain names; permissions and disk space are not modelled.
\<close>

datatype 'f content =
    Directory
  | CsvFile "string list list"
  | JsonFile "'f json"
  | PngFile chart

type_synonym 'f files = "string \<Rightarrow> 'f content option"

text \<open>\<^verbatim>\<open>os.makedirs(name, exist_ok=...)\<close>.\<close>

definition makedirs :: "string \<Rightarrow> bool \<Rightarrow> 'f files \<Rightarrow> exn + 'f files" where
  "makedirs name exist_ok fs =
     (case fs name of
        None \<Rightarrow> Inr (fs(name \<mapsto> Directory))
      | Some Directory \<Rightarrow> if exist_ok then Inr fs else Inl FileExistsError
      | Some _ \<Rightarrow> Inl FileExistsError)"

text \<open>Opening a path for writing and storing the content; a directory cannot be opened.\<close>

definition write_file :: "string \<Rightarrow> 'f content \<Rightarrow> 'f files \<Rightarrow> exn + 'f files" where
  "write_file name c fs =
     (case fs name of
        Some Directory \<Rightarrow> Inl IsADirectoryError
      | _ \<Rightarrow> Inr (fs(name \<mapsto> c)))"

section \<open>The dataframe operations the program calls\<close>

text \<open>
  \<^verbatim>\<open>df.to_csv(path, index=...)\<close>: a header record with the column names, then one
  record per row. With \<open>index\<close> the row label comes first in every record, under an
  empty name. \<open>cell_text\<close> is the text the library writes for a cell.
\<close>

definition to_csv :: "('f json \<Rightarrow> string) \<Rightarrow> bool \<Rightarrow> 'f frame \<Rightarrow> string list list" where
  "to_csv cell_text index f =
     ((if index then [[]] else []) @ columns f) #
     map (\<lambda>(i, r). (if index then [cell_text (JInt (int i))] else []) @ map cell_text r)
       (enumerate 0 (rows f))"

text \<open>
  \<^verbatim>\<open>pandas.read_csv(path)\<close> on the records of a file. Blank lines (records with no
  field) are skipped; a file with nothing left has no columns to parse, which is
  \<^verbatim>\<open>EmptyDataError\<close>. The first record names the columns. Only files with distinct,
  non-empty column names and rows as wide as the header are modelled (\<open>to_csv\<close> without
  index writes such files): on other files the library renames columns, pads rows or
  takes an implicit index, and the result is \<open>None\<close> here. \<open>cell_value\<close> is the value
  the library reads from a field's text.
\<close>

definition read_csv :: "(string \<Rightarrow> 'f json) \<Rightarrow> string list list \<Rightarrow> (exn + 'f frame) option" where
  "read_csv cell_value recs =
     (case filter (\<lambda>r. r \<noteq> []) recs of
        [] \<Rightarrow> Some (Inl EmptyDataError)
      | h # body \<Rightarrow>
          if distinct h \<and> [] \<notin> set h \<and> list_all (\<lambda>r. length r = length h) body
          then Some (Inr \<lparr>columns = h, rows = map (map cell_value) body\<rparr>)
          else None)"

text \<open>\<^verbatim>\<open>df.to_json(path, orient="records")\<close>: a list with one object per row.\<close>

definition to_json :: "'f frame \<Rightarrow> 'f json" where
  "to_json f = JArr (map (\<lambda>r. JObj (zip (columns f) r)) (rows f))"

text \<open>\<^verbatim>\<open>df.head()\<close>: the first five rows.\<close>

definition head :: "'f frame \<Rightarrow> 'f frame" where
  "head f = f\<lparr>rows := take 5 (rows f)\<rparr>"

text \<open>
  A database is its tables by name. What a database does with a frame is a parameter:
  \<open>refuses\<close> gives the exception it raises when it cannot create the table or insert the
  rows (a frame without columns, an integer beyond what it can store), \<open>stores\<close> the
  table it holds once the rows are in (the cells as the column types of the table keep
  them; a column mixing integers and texts is kept as text).
  \<^verbatim>\<open>df.to_sql(name, engine, if_exists=..., index=...)\<close> creates the table when it is
  not there; when it is, \<^verbatim>\<open>fail\<close> raises, \<^verbatim>\<open>replace\<close> drops it before creating it
  anew and \<^verbatim>\<open>append\<close> inserts after the rows it has. When the database refuses the
  frame the call raises; a replaced table has been dropped by then, and what is left of
  the database is not modelled. A lost connection is not modelled.
\<close>

type_synonym 'f database = "string \<Rightarrow> 'f frame option"

record 'f dbms =
  refuses :: "'f frame \<Rightarrow> exn option"
  stores :: "'f frame \<Rightarrow> 'f frame"

datatype if_exists = IfFail | IfReplace | IfAppend

definition with_index :: "'f frame \<Rightarrow> 'f frame" where
  "with_index f =
     \<lparr>columns = ''index'' # columns f,
      rows = map (\<lambda>(i, r). JInt (int i) # r) (enumerate 0 (rows f))\<rparr>"

definition create_table :: "'f dbms \<Rightarrow> string \<Rightarrow> 'f frame \<Rightarrow> 'f database \<Rightarrow> exn + 'f database" where
  "create_table be name new db =
     (case refuses be new of
        Some e \<Rightarrow> Inl e
      | None \<Rightarrow> Inr (db(name \<mapsto> stores be new)))"

definition to_sql ::
  "'f dbms \<Rightarrow> 'f frame \<Rightarrow> string \<Rightarrow> if_exists \<Rightarrow> bool \<Rightarrow> 'f database \<Rightarrow> exn + 'f database" where
  "to_sql be f name mode index db =
     (let new = (if index then with_index f else f) in
      case db name of
        None \<Rightarrow> create_table be name new db
      | Some old \<Rightarrow>
          (case mode of
             IfFail \<Rightarrow> Inl (ValueError ''Table already exists.'')
           | IfReplace \<Rightarrow> create_table be name new (db(name := None))
           | IfAppend \<Rightarrow>
               (case refuses be new of
                  Some e \<Rightarrow> Inl e
                | None \<Rightarrow>
                    if columns old = columns new
                    then Inr (db(name \<mapsto> old\<lparr>rows := rows old @ rows (stores be new)\<rparr>))
                    else Inl (DatabaseError ''column mismatch''))))"

text \<open>
  For the examples: a database that refuses a frame without columns and stores every
  other frame as it is.
\<close>

definition plain_dbms :: "string dbms" where
  "plain_dbms =
     \<lparr>refuses = (\<lambda>f. if columns f = [] then Some (DatabaseError ''no columns'') else None),
      stores = (\<lambda>f. f)\<rparr>"

text \<open>
  \<^verbatim>\<open>sns.countplot(data=df, x=name)\<close>: the missing cells of the column (\<^verbatim>\<open>None\<close>,
  \<^verbatim>\<open>NaN\<close>) are dropped, the others are grouped by the text of their value, and there
  is one bar per text, as high as the number of rows with it. A frame without the column
  is a \<^verbatim>\<open>ValueError\<close> (its message is abridged here); a list or a dictionary cannot be
  a category.
\<close>

fun missing :: "'f floats \<Rightarrow> 'f json \<Rightarrow> bool" where
  "missing np JNull = True"
| "missing np (JFloat x) = (x = nan np)"
| "missing np _ = False"

fun category_text :: "'f floats \<Rightarrow> 'f json \<Rightarrow> string option" where
  "category_text np (JStr s) = Some s"
| "category_text np (JInt i) = Some (str_of_int i)"
| "category_text np (JBool b) = Some (if b then ''True'' else ''False'')"
| "category_text np (JFloat x) = Some (float_text np x)"
| "category_text np JNull = Some ''None''"
| "category_text np (JArr xs) = None"
| "category_text np (JObj kvs) = None"

fun texts_of :: "'f floats \<Rightarrow> 'f json list \<Rightarrow> string list option" where
  "texts_of np [] = Some []"
| "texts_of np (v # vs) =
     (case category_text np v of
        None \<Rightarrow> None
      | Some t \<Rightarrow> (case texts_of np vs of None \<Rightarrow> None | Some ts \<Rightarrow> Some (t # ts)))"

definition countplot :: "'f floats \<Rightarrow> 'f frame \<Rightarrow> string \<Rightarrow> exn + (string \<times> nat) multiset" where
  "countplot np f x =
     (case column f x of
        None \<Rightarrow> Inl (ValueError (''Could not interpret value '' @ x))
      | Some cells \<Rightarrow>
          (case texts_of np (filter (\<lambda>v. \<not> missing np v) cells) of
             None \<Rightarrow> Inl TypeError
           | Some ts \<Rightarrow> Inr (mset (map (\<lambda>t. (t, count_list ts t)) (unique ts)))))"

section \<open>BookFetcher\<close>

text \<open>
  \<^verbatim>\<open>
  def extract_books(self):
      try:
          response = requests.get(self.api_url)
          response.raise_for_status()
          data = response.json()
          return data.get("docs", [])
      except requests.RequestException as e:
          print(f"Error fetching books: {e}")
          return []
  \<close>
  The network is a parameter: what \<^verbatim>\<open>requests.get\<close> does with a URL. It raises a
  \<^verbatim>\<open>RequestException\<close>, or returns a response with a status code and a body;
  \<open>json_body\<close> is the decoded body, \<open>None\<close> when the body is not JSON.
  \<^verbatim>\<open>raise_for_status\<close> raises on the statuses 400 to 599.
\<close>

record 'f response =
  status_code :: nat
  json_body :: "'f json option"

datatype 'f reply = Raised request_error | Response "'f response"

definition raise_for_status :: "'f response \<Rightarrow> exn + unit" where
  "raise_for_status r =
     (if 400 \<le> status_code r \<and> status_code r < 600
      then Inl (RequestException (HTTPError (status_code r)))
      else Inr ())"

definition response_json :: "'f response \<Rightarrow> exn + 'f json" where
  "response_json r =
     (case json_body r of None \<Rightarrow> Inl (RequestException JSONDecodeError) | Some d \<Rightarrow> Inr d)"

record BookFetcher =
  api_url :: string

definition BookFetcher_init :: "string \<Rightarrow> BookFetcher" where
  "BookFetcher_init API_URL = \<lparr>api_url = API_URL\<rparr>"

text \<open>The body of the \<^verbatim>\<open>try\<close> block.\<close>

definition extract_books_try :: "(string \<Rightarrow> 'f reply) \<Rightarrow> BookFetcher \<Rightarrow> exn + 'f json" where
  "extract_books_try requests_get self =
     (case requests_get (api_url self) of
        Raised e \<Rightarrow> Inl (RequestException e)
      | Response r \<Rightarrow>
          (case raise_for_status r of
             Inl e \<Rightarrow> Inl e
           | Inr _ \<Rightarrow>
               (case response_json r of
                  Inl e \<Rightarrow> Inl e
                | Inr d \<Rightarrow> py_get d ''docs'' (JArr []))))"

text \<open>
  \<open>extract_books\<close> with its handler: a \<^verbatim>\<open>RequestException\<close> is printed and the
  empty list returned; any other exception goes on to the caller.
\<close>

definition extract_books ::
  "(string \<Rightarrow> 'f reply) \<Rightarrow> BookFetcher \<Rightarrow> exn + ('f json \<times> 'f printed list)" where
  "extract_books requests_get self =
     (case extract_books_try requests_get self of
        Inr docs \<Rightarrow> Inr (docs, [])
      | Inl (RequestException e) \<Rightarrow>
          Inr (JArr [], [ErrorLine ''Error fetching books: '' (RequestException e)])
      | Inl e \<Rightarrow> Inl e)"

section \<open>The exports of BookCleaner\<close>

text \<open>
  \<^verbatim>\<open>
  def save_data_into_csv(self, filename):
      self.cleaned_data.to_csv(filename, index=False)
      print(f"Data saved to {filename}")

  def save_data_into_json(self, filename):
      self.cleaned_data.to_json(filename, orient="records")
      print(f"Data saved to {filename}")
  \<close>
  An attribute of \<^verbatim>\<open>None\<close> is an \<^verbatim>\<open>AttributeError\<close>: that is what calling
  \<^verbatim>\<open>to_csv\<close> or \<^verbatim>\<open>to_json\<close> on the stored structure does before \<open>clean_data\<close> has
  run. \<open>cell_text\<close> is the text the library writes for a cell.
\<close>

definition save_data_into_csv ::
  "('f json \<Rightarrow> string) \<Rightarrow> 'f BookCleaner \<Rightarrow> string \<Rightarrow> 'f files \<Rightarrow>
     exn + ('f files \<times> 'f printed list)" where
  "save_data_into_csv cell_text self filename fs =
     (case cleaned_data self of
        None \<Rightarrow> Inl AttributeError
      | Some f \<Rightarrow>
          (case write_file filename (CsvFile (to_csv cell_text False f)) fs of
             Inl e \<Rightarrow> Inl e
           | Inr fs' \<Rightarrow> Inr (fs', [Line (''Data saved to '' @ filename)])))"

definition save_data_into_json ::
  "'f BookCleaner \<Rightarrow> string \<Rightarrow> 'f files \<Rightarrow> exn + ('f files \<times> 'f printed list)" where
  "save_data_into_json self filename fs =
     (case cleaned_data self of
        None \<Rightarrow> Inl AttributeError
      | Some f \<Rightarrow>
          (case write_file filename (JsonFile (to_json f)) fs of
             Inl e \<Rightarrow> Inl e
           | Inr fs' \<Rightarrow> Inr (fs', [Line (''Data saved to '' @ filename)])))"

section \<open>BookDatabase\<close>

text \<open>
  \<^verbatim>\<open>sqlalchemy.create_engine(url)\<close>: a string without \<open>://\<close> is no URL and raises
  \<^verbatim>\<open>ArgumentError\<close>; what happens to any other string (loading the dialect and its
  driver) depends on the installation and is the parameter \<open>dialect\<close>.
\<close>

datatype engine = Engine string

fun has_scheme_separator :: "string \<Rightarrow> bool" where
  "has_scheme_separator [] = False"
| "has_scheme_separator (c # cs) = (take 3 (c # cs) = ''://'' \<or> has_scheme_separator cs)"

definition create_engine :: "(string \<Rightarrow> exn + engine) \<Rightarrow> string \<Rightarrow> exn + engine" where
  "create_engine dialect url =
     (if has_scheme_separator url then dialect url else Inl ArgumentError)"

record 'f BookDatabase =
  conn_url :: string
  engine :: engine
  df :: "'f frame"

text \<open>
  \<^verbatim>\<open>
  def __init__(self, df):
      self.conn_url = os.getenv("DB_CONN_URL")
      if not self.conn_url:
          raise ValueError("No connection URL found in environment variables")
      self.engine = create_engine(self.conn_url)
      self.df = df
  \<close>
  \<open>getenv\<close> is the process environment, as it is once the module has loaded the
  \<^verbatim>\<open>.env\<close> file; \<^verbatim>\<open>not self.conn_url\<close> holds for \<^verbatim>\<open>None\<close> and for the empty
  string.
\<close>

definition BookDatabase_init ::
  "(string \<Rightarrow> exn + engine) \<Rightarrow> (string \<Rightarrow> string option) \<Rightarrow> 'f frame \<Rightarrow> exn + 'f BookDatabase" where
  "BookDatabase_init dialect getenv frame =
     (case getenv ''DB_CONN_URL'' of
        None \<Rightarrow> Inl (ValueError ''No connection URL found in environment variables'')
      | Some url \<Rightarrow>
          if url = [] then Inl (ValueError ''No connection URL found in environment variables'')
          else (case create_engine dialect url of
                  Inl e \<Rightarrow> Inl e
                | Inr eng \<Rightarrow> Inr \<lparr>conn_url = url, engine = eng, df = frame\<rparr>))"

text \<open>
  \<^verbatim>\<open>
  def dataframe_to_db(self):
      self.df.to_sql("LibBooks", self.engine, if_exists="replace", index=False)
      print("Data inserted into the database.")
  \<close>
  \<open>be\<close> is the database behind the engine.
\<close>

definition dataframe_to_db ::
  "'f dbms \<Rightarrow> 'f BookDatabase \<Rightarrow> 'f database \<Rightarrow> exn + ('f database \<times> 'f printed list)" where
  "dataframe_to_db be self db =
     (case to_sql be (BookDatabase.df self) ''LibBooks'' IfReplace False db of
        Inl e \<Rightarrow> Inl e
      | Inr db' \<Rightarrow> Inr (db', [Line ''Data inserted into the database.'']))"

text \<open>
  \<^verbatim>\<open>
  def query(self, query):
      try:
          df_from_db = pd.read_sql(query, self.engine)
          print(df_from_db.head())
      except Exception as e:
          print(f"Error querying the database: {e}")
  \<close>
  What the database does with a statement is the parameter \<open>read_sql\<close>: it raises or
  returns a frame, and may change the database. The handler catches every
  \<^verbatim>\<open>Exception\<close>. The sink is returned to show what became of it.
\<close>

definition query ::
  "(string \<Rightarrow> engine \<Rightarrow> 'f database \<Rightarrow> (exn + 'f frame) \<times> 'f database) \<Rightarrow>
   'f BookDatabase \<Rightarrow> string \<Rightarrow> 'f database \<Rightarrow>
   exn + ('f BookDatabase \<times> 'f database \<times> 'f printed list)" where
  "query read_sql self q db =
     (case read_sql q (engine self) db of
        (Inr df_from_db, db') \<Rightarrow> Inr (self, db', [FrameText (head df_from_db)])
      | (Inl e, db') \<Rightarrow> Inr (self, db', [ErrorLine ''Error querying the database: '' e]))"

section \<open>BookVisualizer\<close>

record 'f BookVisualizer =
  df :: "'f frame"

definition BookVisualizer_init :: "'f frame \<Rightarrow> 'f BookVisualizer" where
  "BookVisualizer_init dataframe = \<lparr>df = dataframe\<rparr>"

text \<open>
  \<^verbatim>\<open>
  def plot_publish_year_count(self):
      output_dir = "Visualizations"
      os.makedirs(output_dir, exist_ok=True)
      plt.figure(figsize=(12, 8))
      sns.countplot(data=self.df, x="first_publish_year", palette="coolwarm")
      plt.title("Number of Books by First Publish Year")
      plt.xlabel("First Publish Year")
      plt.ylabel("Number of Books")
      plt.xticks(rotation=45)
      plt.grid(axis="y", linestyle="--", alpha=0.7)
      plt.tight_layout()
      output_path = os.path.join(output_dir, "countplot.png")
      plt.savefig(output_path)
      plt.close()
      print(f"Plot saved to {output_path}")
  \<close>
  \<open>plot_publish_year_count\<close> returns the files as they are when it ends, with the
  printed line or the exception that ended it: the directory is made before the chart is
  drawn. Figure size, tick rotation, grid and palette do not change the bars and are
  left out.
\<close>

definition plot_publish_year_count ::
  "'f floats \<Rightarrow> 'f BookVisualizer \<Rightarrow> 'f files \<Rightarrow> 'f files \<times> (exn + 'f printed list)" where
  "plot_publish_year_count np self fs =
     (case makedirs ''Visualizations'' True fs of
        Inl e \<Rightarrow> (fs, Inl e)
      | Inr fs1 \<Rightarrow>
          (case countplot np (BookVisualizer.df self) ''first_publish_year'' of
             Inl e \<Rightarrow> (fs1, Inl e)
           | Inr bs \<Rightarrow>
               (case write_file ''Visualizations/countplot.png''
                       (PngFile \<lparr>chart_title = ''Number of Books by First Publish Year'',
                                 xlabel = ''First Publish Year'',
                                 ylabel = ''Number of Books'',
                                 bars = bs\<rparr>) fs1 of
                  Inl e \<Rightarrow> (fs1, Inl e)
                | Inr fs2 \<Rightarrow> (fs2, Inr [Line ''Plot saved to Visualizations/countplot.png'']))))"

section \<open>Raw records and cleaned rows, as the specification words them\<close>

text \<open>
  A raw record is a mapping whose \<open>author_name\<close>, when present, is a sequence of text.
  Nothing is asked of the other keys.
\<close>

fun is_text :: "'f json \<Rightarrow> bool" where
  "is_text (JStr s) = True"
| "is_text _ = False"

fun raw_record :: "'f json \<Rightarrow> bool" where
  "raw_record (JObj kvs) =
     (case map_of kvs ''author_name'' of
        None \<Rightarrow> True
      | Some (JArr xs) \<Rightarrow> list_all is_text xs
      | Some _ \<Rightarrow> False)"
| "raw_record _ = False"

fun text_of :: "'f json \<Rightarrow> string" where
  "text_of (JStr s) = s"
| "text_of _ = []"

text \<open>The value of a field, the empty string standing for a missing one.\<close>

fun field_or_empty :: "'f json \<Rightarrow> string \<Rightarrow> 'f json" where
  "field_or_empty (JObj kvs) k = (case map_of kvs k of Some v \<Rightarrow> v | None \<Rightarrow> JStr '''')"
| "field_or_empty _ k = JStr ''''"

text \<open>The author names of a raw record: none when the field is missing.\<close>

fun author_names :: "'f json \<Rightarrow> string list" where
  "author_names (JObj kvs) =
     (case map_of kvs ''author_name'' of Some (JArr xs) \<Rightarrow> map text_of xs | _ \<Rightarrow> [])"
| "author_names _ = []"

text \<open>Joining with a separator, by folding from the right.\<close>

definition joined_with :: "string \<Rightarrow> string list \<Rightarrow> string" where
  "joined_with sep ss =
     (if ss = [] then [] else foldr (\<lambda>s acc. s @ sep @ acc) (butlast ss) (last ss))"

definition cleaned_row :: "'f json \<Rightarrow> (string \<times> 'f json) list" where
  "cleaned_row item =
     [(''title'', field_or_empty item ''title''),
      (''author_name'', JStr (joined_with '', '' (author_names item))),
      (''first_publish_year'', field_or_empty item ''first_publish_year''),
      (''ratings'', field_or_empty item ''ratings_sortable'')]"

text \<open>
  The values a \<open>first_publish_year\<close> cell holds by the data model: an integer, a text
  (the empty string of a missing year), or nothing.
\<close>

fun year_cell :: "'f json \<Rightarrow> bool" where
  "year_cell (JInt i) = True"
| "year_cell (JStr s) = True"
| "year_cell JNull = True"
| "year_cell _ = False"

text \<open>A row of a frame as a record: each column name with the row's cell.\<close>

definition row_at :: "'f frame \<Rightarrow> nat \<Rightarrow> (string \<times> 'f json) list" where
  "row_at f i = zip (columns f) (rows f ! i)"

definition book_columns :: "string list" where
  "book_columns = [''title'', ''author_name'', ''first_publish_year'', ''ratings'']"

text \<open>
  The integers of a record fit in 64 bits when each integer it holds under a key is
  in the signed 64-bit range.
\<close>

fun int64_cell :: "'f json \<Rightarrow> bool" where
  "int64_cell (JInt v) = (- (2 ^ 63) \<le> v \<and> v < 2 ^ 63)"
| "int64_cell _ = True"

fun int64_record :: "'f json \<Rightarrow> bool" where
  "int64_record (JObj kvs) = list_all (\<lambda>kv. int64_cell (snd kv)) kvs"
| "int64_record _ = True"

text \<open>
  A column is stored as doubles when it holds numbers and nulls only, with a double or
  a null among them and not nulls only. In such a column an integer is stored as the
  double nearest to it and a null as \<^verbatim>\<open>NaN\<close>; in every other column a value is
  stored as it is.
\<close>

fun is_number_or_null :: "'f json \<Rightarrow> bool" where
  "is_number_or_null JNull = True"
| "is_number_or_null (JInt i) = True"
| "is_number_or_null (JFloat x) = True"
| "is_number_or_null _ = False"

definition stored_as_doubles :: "'f json list \<Rightarrow> bool" where
  "stored_as_doubles col =
     (list_all is_number_or_null col \<and>
      (list_ex is_null col \<or> list_ex is_float col) \<and>
      (list_ex is_int col \<or> list_ex is_float col))"

definition as_stored :: "'f floats \<Rightarrow> 'f json list \<Rightarrow> 'f json \<Rightarrow> 'f json" where
  "as_stored np col v = (if stored_as_doubles col then to_float np v else v)"

text \<open>The values the cleaned rows of the records have under a key, in order.\<close>

definition projected :: "'f json list \<Rightarrow> string \<Rightarrow> 'f json list" where
  "projected items k = map (\<lambda>item. dict_get (cleaned_row item) k (JStr [])) items"

text \<open>The cell of a row under a column name.\<close>

definition cell_at :: "'f frame \<Rightarrow> nat \<Rightarrow> string \<Rightarrow> 'f json option" where
  "cell_at f i name = map_of (row_at f i) name"

section \<open>Properties of the cleaner\<close>

lemma join_strs_joined_with: "join_strs sep ss = joined_with sep ss"
proof (induction sep ss rule: join_strs.induct)
  case (1 sep)
  show ?case by (simp add: joined_with_def)
next
  case (2 sep x)
  show ?case by (simp add: joined_with_def)
next
  case (3 sep x y ys)
  then show ?case by (simp add: joined_with_def)
qed

lemma as_strs_texts: "list_all is_text xs \<Longrightarrow> as_strs xs = Some (map text_of xs)"
proof (induction xs)
  case Nil
  show ?case by simp
next
  case (Cons x xs)
  then show ?case by (cases x) simp_all
qed

lemma flattened_item_raw_record:
  assumes "raw_record item"
  shows "flattened_item item = Inr (cleaned_row item)"
proof (cases item)
  case (JObj kvs)
  show ?thesis
  proof (cases "map_of kvs ''author_name''")
    case None
    with JObj show ?thesis
      by (simp add: flattened_item_def cleaned_row_def dict_get_def str_join_def
          joined_with_def split: option.split)
  next
    case (Some a)
    with assms JObj obtain xs where a: "a = JArr xs" and xs: "list_all is_text xs"
      by (cases a) simp_all
    from JObj Some a xs show ?thesis
      by (simp add: flattened_item_def cleaned_row_def dict_get_def str_join_def
          as_strs_texts join_strs_joined_with split: option.split)
  qed
qed (use assms in simp_all)

lemma clean_loop_raw_records:
  "list_all raw_record items \<Longrightarrow> clean_loop items acc = Inr (acc @ map cleaned_row items)"
proof (induction items arbitrary: acc)
  case Nil
  show ?case by simp
next
  case (Cons item items)
  then show ?case by (simp add: flattened_item_raw_record)
qed

lemma set_unique: "set (unique xs) = set xs"
  by (induction xs) auto

lemma unique_distinct: "distinct xs \<Longrightarrow> unique xs = xs"
proof (induction xs)
  case Nil
  show ?case by simp
next
  case (Cons x xs)
  then have "filter (\<lambda>y. y \<noteq> x) xs = xs"
    by (auto intro: filter_True)
  with Cons show ?case by simp
qed

lemma unique_append:
  "unique (xs @ ys) = unique xs @ filter (\<lambda>y. y \<notin> set xs) (unique ys)"
proof (induction xs)
  case Nil
  show ?case by simp
next
  case (Cons x xs)
  have "filter (\<lambda>y. y \<noteq> x) (filter (\<lambda>y. y \<notin> set xs) (unique ys)) =
        filter (\<lambda>y. y \<notin> set (x # xs)) (unique ys)"
    by (auto intro: filter_cong)
  with Cons show ?case by simp
qed

lemma unique_absorb:
  assumes "distinct xs" and "set ys \<subseteq> set xs"
  shows "unique (xs @ ys) = xs"
proof -
  from assms(2) have "filter (\<lambda>y. y \<notin> set xs) (unique ys) = []"
    by (auto simp: filter_empty_conv set_unique)
  with assms(1) show ?thesis
    by (simp add: unique_append unique_distinct)
qed

lemma flattened_item_keys: "flattened_item item = Inr row \<Longrightarrow> map fst row = book_columns"
  by (auto simp: flattened_item_def book_columns_def split: sum.splits)

lemma clean_loop_keys:
  assumes "clean_loop items acc = Inr cleaned"
  shows "\<exists>new. cleaned = acc @ new \<and> length new = length items \<and>
               (\<forall>r \<in> set new. map fst r = book_columns)"
  using assms
proof (induction items arbitrary: acc)
  case Nil
  then show ?case by simp
next
  case (Cons item items)
  from Cons.prems obtain row where row: "flattened_item item = Inr row"
    and rest: "clean_loop items (acc @ [row]) = Inr cleaned"
    by (auto split: sum.splits)
  from Cons.IH [OF rest] obtain new where new: "cleaned = (acc @ [row]) @ new"
    "length new = length items" "\<forall>r \<in> set new. map fst r = book_columns"
    by blast
  have "cleaned = acc @ (row # new)" using new(1) by simp
  moreover have "length (row # new) = length (item # items)" using new(2) by simp
  moreover have "\<forall>r \<in> set (row # new). map fst r = book_columns"
    using new(3) flattened_item_keys [OF row] by simp
  ultimately show ?case by blast
qed

lemma concat_keys_subset:
  "\<forall>r \<in> set recs. map fst r = ks \<Longrightarrow> set (concat (map (map fst) recs)) \<subseteq> set ks"
  by (induction recs) auto

lemma distinct_book_columns: "distinct book_columns"
  by (simp add: book_columns_def)

lemma length_convert_column: "length (convert_column np col) = length col"
  by (simp add: convert_column_def)

lemma DataFrame_columns:
  assumes "\<forall>r \<in> set recs. map fst r = book_columns"
  shows "columns (DataFrame np recs) = (if recs = [] then [] else book_columns)"
proof (cases recs)
  case Nil
  then show ?thesis by (simp add: DataFrame_def)
next
  case (Cons r rs)
  with assms have r: "map fst r = book_columns"
    and rs: "\<forall>r \<in> set rs. map fst r = book_columns"
    by simp_all
  have "unique (book_columns @ concat (map (map fst) rs)) = book_columns"
    by (rule unique_absorb [OF distinct_book_columns concat_keys_subset [OF rs]])
  with Cons r show ?thesis by (simp add: DataFrame_def Let_def)
qed

lemma DataFrame_length_rows: "length (rows (DataFrame np recs)) = length recs"
  by (simp add: DataFrame_def Let_def)

lemma DataFrame_rows_width:
  "\<forall>r \<in> set (rows (DataFrame np recs)). length r = length (columns (DataFrame np recs))"
  by (auto simp: DataFrame_def Let_def)

lemma DataFrame_row:
  assumes "\<forall>r \<in> set recs. map fst r = book_columns" and "i < length recs"
  shows "rows (DataFrame np recs) ! i =
           map (\<lambda>c. convert_column np (map (\<lambda>r. dict_get r c (JFloat (nan np))) recs) ! i)
             book_columns"
proof -
  from assms(2) have "recs \<noteq> []" by auto
  with DataFrame_columns [OF assms(1), of np]
  have "unique (concat (map (map fst) recs)) = book_columns"
    by (simp add: DataFrame_def Let_def)
  with assms(2) show ?thesis
    by (simp add: DataFrame_def Let_def comp_def)
qed

lemma cleaned_row_keys: "map fst (cleaned_row item) = book_columns"
  by (simp add: cleaned_row_def book_columns_def)

lemma cleaned_row_value:
  "c \<in> set book_columns \<Longrightarrow> dict_get (cleaned_row item) c d = dict_get (cleaned_row item) c d'"
  by (auto simp: cleaned_row_def book_columns_def dict_get_def)

lemma clean_data_raw_records:
  assumes "list_all raw_record items"
  shows "clean_data np \<lparr>data = JArr items, cleaned_data = c\<rparr> =
           Inr (\<lparr>data = JArr items, cleaned_data = Some (DataFrame np (map cleaned_row items))\<rparr>,
                DataFrame np (map cleaned_row items))"
  using clean_loop_raw_records [OF assms, of "[]"] by (simp add: clean_data_def Let_def)

text \<open>
  The row at a position of the frame built from the cleaned rows: under each of the
  four names, the cell at that position of the column as pandas stores it.
\<close>

lemma cleaned_frame_row:
  assumes "i < length items"
  shows "row_at (DataFrame np (map cleaned_row items)) i =
           map (\<lambda>c. (c, convert_column np (projected items c) ! i)) book_columns"
proof -
  let ?recs = "map cleaned_row items"
  have keys: "\<forall>r \<in> set ?recs. map fst r = book_columns"
    by (auto simp: cleaned_row_keys)
  from assms have ne: "?recs \<noteq> []" by auto
  have cols: "columns (DataFrame np ?recs) = book_columns"
    using DataFrame_columns [OF keys, of np] ne by simp
  have col: "map (\<lambda>r. dict_get r c (JFloat (nan np))) ?recs = projected items c"
    if "c \<in> set book_columns" for c
    using that by (auto simp: projected_def intro: cleaned_row_value)
  from assms have "rows (DataFrame np ?recs) ! i =
      map (\<lambda>c. convert_column np (map (\<lambda>r. dict_get r c (JFloat (nan np))) ?recs) ! i) book_columns"
    by (intro DataFrame_row [OF keys]) simp
  also have "\<dots> = map (\<lambda>c. convert_column np (projected items c) ! i) book_columns"
    using col by (intro map_cong refl) simp
  finally show ?thesis
    by (simp add: row_at_def cols zip_map2 zip_same_conv_map)
qed

lemma int_scan_int64: "list_all int64_cell col \<Longrightarrow> \<not> int_scan seen_null False sint col"
proof (induction col arbitrary: seen_null sint)
  case Nil
  show ?case by simp
next
  case (Cons v col)
  then show ?case by (cases v) (auto simp: Let_def)
qed

lemma not_keeps_objects: "\<not> keeps_objects v \<longleftrightarrow> is_number_or_null v"
  by (cases v) simp_all

lemma as_stored_fun:
  "as_stored np col = (\<lambda>v. if stored_as_doubles col then to_float np v else v)"
  by (rule ext) (simp add: as_stored_def)

lemma convert_column_as_stored:
  assumes "list_all int64_cell col"
  shows "convert_column np col = map (as_stored np col) col"
proof (cases "list_ex keeps_objects col")
  case True
  then have "\<not> list_all is_number_or_null col"
    by (auto simp: list_ex_iff list_all_iff not_keeps_objects [symmetric])
  with True show ?thesis
    by (simp add: convert_column_def as_stored_fun stored_as_doubles_def)
next
  case False
  then have "list_all is_number_or_null col"
    by (auto simp: list_ex_iff list_all_iff not_keeps_objects [symmetric])
  with False int_scan_int64 [OF assms, of False False] show ?thesis
    by (auto simp: convert_column_def as_stored_fun stored_as_doubles_def)
qed

lemma field_or_empty_int64: "int64_record item \<Longrightarrow> int64_cell (field_or_empty item k)"
proof (cases item)
  case (JObj kvs)
  assume "int64_record item"
  with JObj have all: "\<forall>kv \<in> set kvs. int64_cell (snd kv)" by (simp add: list_all_iff)
  show ?thesis
  proof (cases "map_of kvs k")
    case None
    with JObj show ?thesis by simp
  next
    case (Some v)
    then have "(k, v) \<in> set kvs" by (rule map_of_SomeD)
    with all have "int64_cell v" by force
    with JObj Some show ?thesis by simp
  qed
qed simp_all

lemma projected_int64:
  assumes "list_all int64_record items"
  shows "list_all int64_cell (projected items c)"
proof -
  have "int64_cell (dict_get (cleaned_row item) c (JStr []))" if "int64_record item" for item
    using that by (auto simp: cleaned_row_def dict_get_def field_or_empty_int64)
  with assms show ?thesis by (auto simp: projected_def list_all_iff)
qed

lemma cleaned_row_as_map:
  "cleaned_row item = map (\<lambda>c. (c, dict_get (cleaned_row item) c (JStr []))) book_columns"
  by (simp add: cleaned_row_def book_columns_def dict_get_def)

lemma map_of_keyed: "map_of (map (\<lambda>c. (c, g c)) cs) k = (if k \<in> set cs then Some (g k) else None)"
  by (induction cs) auto

lemma cleaned_row_lookup:
  assumes "map_of (cleaned_row item) k = Some v"
  shows "k \<in> set book_columns \<and> dict_get (cleaned_row item) k d = v"
proof -
  from assms have "(k, v) \<in> set (cleaned_row item)" by (rule map_of_SomeD)
  then have "k \<in> fst ` set (cleaned_row item)" by force
  then have "k \<in> set book_columns"
    using cleaned_row_keys [of item] by (metis set_map)
  with assms show ?thesis by (simp add: dict_get_def)
qed

lemma cleaned_frame_cell:
  assumes "i < length items" and "k \<in> set book_columns"
  shows "cell_at (DataFrame np (map cleaned_row items)) i k =
           Some (convert_column np (projected items k) ! i)"
  using assms by (simp add: cell_at_def cleaned_frame_row map_of_keyed)

lemma projected_nth:
  "i < length items \<Longrightarrow> projected items k ! i = dict_get (cleaned_row (items ! i)) k (JStr [])"
  by (simp add: projected_def)

text \<open>
  C1, as the code has it. On a sequence of raw records whose integers fit in 64 bits,
  \<open>clean_data\<close> returns a frame with one row per record; the row at each position has
  the four names, and under each name it holds the value the four-field projection of
  the record at that position has there (the record's value, the empty string for a
  missing \<open>title\<close>, \<open>first_publish_year\<close> or \<open>ratings_sortable\<close>, the joined author
  list), as its column stores it. In a column stored as doubles an integer is held as
  the double nearest to it and a null as \<open>NaN\<close>; in every other column a value is held
  unchanged, a null as a missing value.
\<close>

theorem clean_data_one_row_per_record:
  assumes "list_all raw_record items" and "list_all int64_record items"
  shows "\<exists>df. clean_data np \<lparr>data = JArr items, cleaned_data = c\<rparr> =
                 Inr (\<lparr>data = JArr items, cleaned_data = Some df\<rparr>, df) \<and>
              length (rows df) = length items \<and>
              (\<forall>i < length items.
                 map fst (row_at df i) = book_columns \<and>
                 (\<forall>k v. map_of (cleaned_row (items ! i)) k = Some v \<longrightarrow>
                    (stored_as_doubles (projected items k) \<longrightarrow>
                       cell_at df i k = Some (to_float np v)) \<and>
                    (\<not> stored_as_doubles (projected items k) \<and> v \<noteq> JNull \<longrightarrow>
                       cell_at df i k = Some v) \<and>
                    (\<not> stored_as_doubles (projected items k) \<and> v = JNull \<longrightarrow>
                       (\<exists>held. cell_at df i k = Some held \<and> missing np held))))"
proof -
  let ?df = "DataFrame np (map cleaned_row items)"
  have len: "length (rows ?df) = length items"
    by (simp add: DataFrame_length_rows)
  have row: "map fst (row_at ?df i) = book_columns \<and>
      (\<forall>k v. map_of (cleaned_row (items ! i)) k = Some v \<longrightarrow>
         (stored_as_doubles (projected items k) \<longrightarrow>
            cell_at ?df i k = Some (to_float np v)) \<and>
         (\<not> stored_as_doubles (projected items k) \<and> v \<noteq> JNull \<longrightarrow>
            cell_at ?df i k = Some v) \<and>
         (\<not> stored_as_doubles (projected items k) \<and> v = JNull \<longrightarrow>
            (\<exists>held. cell_at ?df i k = Some held \<and> missing np held)))"
    if i: "i < length items" for i
  proof (intro conjI allI impI)
    show "map fst (row_at ?df i) = book_columns"
      using i by (simp add: cleaned_frame_row comp_def)
  next
    fix k v
    assume kv: "map_of (cleaned_row (items ! i)) k = Some v"
    from cleaned_row_lookup [OF kv, of "JStr []"]
    have k: "k \<in> set book_columns" and v: "dict_get (cleaned_row (items ! i)) k (JStr []) = v"
      by simp_all
    have "convert_column np (projected items k) ! i = as_stored np (projected items k) v"
      using i v convert_column_as_stored [OF projected_int64 [OF assms(2)], of np k]
      by (simp add: projected_nth projected_def)
    with cleaned_frame_cell [OF i k, of np]
    have stored: "cell_at ?df i k = Some (as_stored np (projected items k) v)" by simp
    {
      assume "stored_as_doubles (projected items k)"
      with stored show "cell_at ?df i k = Some (to_float np v)" by (simp add: as_stored_def)
    }
    {
      assume "\<not> stored_as_doubles (projected items k) \<and> v \<noteq> JNull"
      with stored show "cell_at ?df i k = Some v" by (simp add: as_stored_def)
    }
    {
      assume "\<not> stored_as_doubles (projected items k) \<and> v = JNull"
      with stored show "\<exists>held. cell_at ?df i k = Some held \<and> missing np held"
        by (simp add: as_stored_def)
    }
  qed
  from row have "\<forall>i < length items.
      map fst (row_at ?df i) = book_columns \<and>
      (\<forall>k v. map_of (cleaned_row (items ! i)) k = Some v \<longrightarrow>
         (stored_as_doubles (projected items k) \<longrightarrow>
            cell_at ?df i k = Some (to_float np v)) \<and>
         (\<not> stored_as_doubles (projected items k) \<and> v \<noteq> JNull \<longrightarrow>
            cell_at ?df i k = Some v) \<and>
         (\<not> stored_as_doubles (projected items k) \<and> v = JNull \<longrightarrow>
            (\<exists>held. cell_at ?df i k = Some held \<and> missing np held)))"
    by blast
  with clean_data_raw_records [OF assms(1), of np c] len show ?thesis
    by (intro exI [of _ ?df] conjI)
qed

lemma str_of_nat_digit: "n < 10 \<Longrightarrow> str_of_nat n = [''0123456789'' ! n]"
  by (simp add: str_of_nat.simps)

lemma str_of_nat_more: "10 \<le> n \<Longrightarrow> str_of_nat n = str_of_nat (n div 10) @ [''0123456789'' ! (n mod 10)]"
  by (subst str_of_nat.simps) simp

theorem clean_data_one_row_per_record_witness:
  "list_all raw_record
     [JObj [(''title'', JStr ''T1''), (''author_name'', JArr [JStr ''X'']),
            (''first_publish_year'', JInt 2001), (''ratings_sortable'', JInt 5)],
      JObj [(''title'', JNull), (''ratings_sortable'', JFloat ''4.5'')]] \<and>
   list_all int64_record
     [JObj [(''title'', JStr ''T1''), (''author_name'', JArr [JStr ''X'']),
            (''first_publish_year'', JInt 2001), (''ratings_sortable'', JInt 5)],
      JObj [(''title'', JNull), (''ratings_sortable'', JFloat ''4.5'')]] \<and>
   (\<exists>df. clean_data repr_floats
            \<lparr>data = JArr
               [JObj [(''title'', JStr ''T1''), (''author_name'', JArr [JStr ''X'']),
                      (''first_publish_year'', JInt 2001), (''ratings_sortable'', JInt 5)],
                JObj [(''title'', JNull), (''ratings_sortable'', JFloat ''4.5'')]],
             cleaned_data = None\<rparr> =
          Inr (\<lparr>data = JArr
                 [JObj [(''title'', JStr ''T1''), (''author_name'', JArr [JStr ''X'']),
                        (''first_publish_year'', JInt 2001), (''ratings_sortable'', JInt 5)],
                  JObj [(''title'', JNull), (''ratings_sortable'', JFloat ''4.5'')]],
                cleaned_data = Some df\<rparr>, df) \<and>
        length (rows df) = 2 \<and>
        map fst (row_at df 0) = book_columns \<and>
        cell_at df 0 ''title'' = Some (JStr ''T1'') \<and>
        cell_at df 0 ''author_name'' = Some (JStr ''X'') \<and>
        cell_at df 0 ''first_publish_year'' = Some (JInt 2001) \<and>
        cell_at df 0 ''ratings'' = Some (JFloat ''5.0'') \<and>
        cell_at df 1 ''first_publish_year'' = Some (JStr []) \<and>
        (\<exists>held. cell_at df 1 ''title'' = Some held \<and> missing repr_floats held))"
proof -
  let ?items = "[JObj [(''title'', JStr ''T1''), (''author_name'', JArr [JStr ''X'']),
                       (''first_publish_year'', JInt 2001), (''ratings_sortable'', JInt 5)],
                 JObj [(''title'', JNull), (''ratings_sortable'', JFloat ''4.5'')] :: string json]"
  have raw: "list_all raw_record ?items" by simp
  have ints: "list_all int64_record ?items" by simp
  from clean_data_one_row_per_record [OF raw ints, of repr_floats None]
  obtain df where df:
    "clean_data repr_floats \<lparr>data = JArr ?items, cleaned_data = None\<rparr> =
       Inr (\<lparr>data = JArr ?items, cleaned_data = Some df\<rparr>, df)"
    "length (rows df) = length ?items"
    "\<forall>i < length ?items.
       map fst (row_at df i) = book_columns \<and>
       (\<forall>k v. map_of (cleaned_row (?items ! i)) k = Some v \<longrightarrow>
          (stored_as_doubles (projected ?items k) \<longrightarrow>
             cell_at df i k = Some (to_float repr_floats v)) \<and>
          (\<not> stored_as_doubles (projected ?items k) \<and> v \<noteq> JNull \<longrightarrow>
             cell_at df i k = Some v) \<and>
          (\<not> stored_as_doubles (projected ?items k) \<and> v = JNull \<longrightarrow>
             (\<exists>held. cell_at df i k = Some held \<and> missing repr_floats held)))"
    by blast
  have kept: "\<not> stored_as_doubles (projected ?items k)"
    if "k \<in> {''title'', ''author_name'', ''first_publish_year''}" for k
    using that
    by (auto simp: projected_def cleaned_row_def dict_get_def stored_as_doubles_def joined_with_def)
  have doubles: "stored_as_doubles (projected ?items ''ratings'')"
    by (simp add: projected_def cleaned_row_def dict_get_def stored_as_doubles_def)
  have five: "to_float repr_floats (JInt 5) = JFloat ''5.0''"
    by (simp add: repr_floats_def str_of_int_def str_of_nat_digit)
  from df(3) have r0: "\<forall>k v. map_of (cleaned_row (?items ! 0)) k = Some v \<longrightarrow>
      (stored_as_doubles (projected ?items k) \<longrightarrow>
         cell_at df 0 k = Some (to_float repr_floats v)) \<and>
      (\<not> stored_as_doubles (projected ?items k) \<and> v \<noteq> JNull \<longrightarrow>
         cell_at df 0 k = Some v)"
    by simp
  from df(3) have r1: "\<forall>k v. map_of (cleaned_row (?items ! 1)) k = Some v \<longrightarrow>
      (\<not> stored_as_doubles (projected ?items k) \<and> v \<noteq> JNull \<longrightarrow>
         cell_at df 1 k = Some v) \<and>
      (\<not> stored_as_doubles (projected ?items k) \<and> v = JNull \<longrightarrow>
         (\<exists>held. cell_at df 1 k = Some held \<and> missing repr_floats held))"
    by simp
  have "map_of (cleaned_row (?items ! 0)) ''title'' = Some (JStr ''T1'')"
    by (simp add: cleaned_row_def)
  with r0 kept have c1: "cell_at df 0 ''title'' = Some (JStr ''T1'')" by blast
  have "map_of (cleaned_row (?items ! 0)) ''author_name'' = Some (JStr ''X'')"
    by (simp add: cleaned_row_def joined_with_def)
  with r0 kept have c2: "cell_at df 0 ''author_name'' = Some (JStr ''X'')" by blast
  have "map_of (cleaned_row (?items ! 0)) ''first_publish_year'' = Some (JInt 2001)"
    by (simp add: cleaned_row_def)
  with r0 kept have c3: "cell_at df 0 ''first_publish_year'' = Some (JInt 2001)" by blast
  have "map_of (cleaned_row (?items ! 0)) ''ratings'' = Some (JInt 5)"
    by (simp add: cleaned_row_def)
  with r0 doubles have "cell_at df 0 ''ratings'' = Some (to_float repr_floats (JInt 5))" by blast
  with five have c4: "cell_at df 0 ''ratings'' = Some (JFloat ''5.0'')" by simp
  have "map_of (cleaned_row (?items ! 1)) ''first_publish_year'' = Some (JStr [])"
    by (simp add: cleaned_row_def)
  with r1 kept have c5: "cell_at df 1 ''first_publish_year'' = Some (JStr [])" by blast
  have "map_of (cleaned_row (?items ! 1)) ''title'' = Some JNull"
    by (simp add: cleaned_row_def)
  with r1 kept have c6: "\<exists>held. cell_at df 1 ''title'' = Some held \<and> missing repr_floats held"
    by blast
  from df(3) have c0: "map fst (row_at df 0) = book_columns" by simp
  from df(2) have len: "length (rows df) = 2" by simp
  from raw ints df(1) len c0 c1 c2 c3 c4 c5 c6 show ?thesis
    by (intro conjI exI [of _ df])
qed

text \<open>
  The scenario of the specification: one record with every field gives the row with the
  title, the single author, the year and the ratings as they are.
\<close>

lemma clean_data_scenario:
  "clean_data repr_floats
     \<lparr>data = JArr [JObj [(''title'', JStr ''T1''), (''author_name'', JArr [JStr ''X'']),
                         (''first_publish_year'', JInt 2001), (''ratings_sortable'', JInt 5)]],
      cleaned_data = None\<rparr> =
     Inr (\<lparr>data = JArr [JObj [(''title'', JStr ''T1''), (''author_name'', JArr [JStr ''X'']),
                              (''first_publish_year'', JInt 2001), (''ratings_sortable'', JInt 5)]],
           cleaned_data = Some \<lparr>columns = book_columns,
                                 rows = [[JStr ''T1'', JStr ''X'', JInt 2001, JInt 5]]\<rparr>\<rparr>,
          \<lparr>columns = book_columns, rows = [[JStr ''T1'', JStr ''X'', JInt 2001, JInt 5]]\<rparr>)"
  by (simp add: clean_data_def flattened_item_def dict_get_def str_join_def DataFrame_def
      convert_column_def book_columns_def Let_def)

text \<open>
  C1, as the specification words it, fails: of two raw records with the ratings 5 and
  4.5, the first has the integer 5 in its four-field projection, and the frame holds the
  double 5.0 in its row, the column of ratings being stored as doubles.
\<close>

theorem clean_data_stores_doubles_counterexample:
  "list_all raw_record
     [JObj [(''title'', JStr ''T1''), (''ratings_sortable'', JInt 5)],
      JObj [(''title'', JStr ''T2''), (''ratings_sortable'', JFloat ''4.5'')]] \<and>
   clean_data repr_floats
     \<lparr>data = JArr [JObj [(''title'', JStr ''T1''), (''ratings_sortable'', JInt 5)],
                   JObj [(''title'', JStr ''T2''), (''ratings_sortable'', JFloat ''4.5'')]],
      cleaned_data = None\<rparr> =
     Inr (\<lparr>data = JArr [JObj [(''title'', JStr ''T1''), (''ratings_sortable'', JInt 5)],
                        JObj [(''title'', JStr ''T2''), (''ratings_sortable'', JFloat ''4.5'')]],
           cleaned_data =
             Some \<lparr>columns = book_columns,
                   rows = [[JStr ''T1'', JStr [], JStr [], JFloat ''5.0''],
                           [JStr ''T2'', JStr [], JStr [], JFloat ''4.5'']]\<rparr>\<rparr>,
          \<lparr>columns = book_columns,
           rows = [[JStr ''T1'', JStr [], JStr [], JFloat ''5.0''],
                   [JStr ''T2'', JStr [], JStr [], JFloat ''4.5'']]\<rparr>) \<and>
   cleaned_row (JObj [(''title'', JStr ''T1''), (''ratings_sortable'', JInt 5)] :: string json) =
     [(''title'', JStr ''T1''), (''author_name'', JStr []),
      (''first_publish_year'', JStr []), (''ratings'', JInt 5)] \<and>
   row_at \<lparr>columns = book_columns,
           rows = [[JStr ''T1'', JStr [], JStr [], JFloat ''5.0''],
                   [JStr ''T2'', JStr [], JStr [], JFloat ''4.5'']]\<rparr> 0 =
     [(''title'', JStr ''T1''), (''author_name'', JStr []),
      (''first_publish_year'', JStr []), (''ratings'', JFloat ''5.0'')] \<and>
   row_at \<lparr>columns = book_columns,
           rows = [[JStr ''T1'', JStr [], JStr [], JFloat ''5.0''],
                   [JStr ''T2'', JStr [], JStr [], JFloat ''4.5'']]\<rparr> 0 \<noteq>
     cleaned_row (JObj [(''title'', JStr ''T1''), (''ratings_sortable'', JInt 5)] :: string json)"
  by (simp add: clean_data_def flattened_item_def dict_get_def str_join_def DataFrame_def
      convert_column_def Let_def repr_floats_def str_of_int_def str_of_nat_digit
      book_columns_def cleaned_row_def joined_with_def row_at_def)

text \<open>
  C2. On a sequence of raw records, when the \<open>author_name\<close> field of the record at a
  position is a list of strings, the \<open>author_name\<close> cell of the frame's row at that
  position is those strings joined with a comma and a space: the names \<open>A\<close> and \<open>B\<close>
  give \<open>A, B\<close>; the empty list and a missing field both give the empty string.
\<close>

theorem clean_data_author_name_joined:
  assumes "list_all raw_record items" and "i < length items" and "items ! i = JObj kvs"
  shows "\<exists>self' df.
           clean_data np \<lparr>data = JArr items, cleaned_data = c\<rparr> = Inr (self', df) \<and>
           cleaned_data self' = Some df \<and>
           (map_of kvs ''author_name'' = Some (JArr (map JStr names)) \<longrightarrow>
              cell_at df i ''author_name'' = Some (JStr (joined_with '', '' names))) \<and>
           (map_of kvs ''author_name'' = Some (JArr []) \<longrightarrow>
              cell_at df i ''author_name'' = Some (JStr [])) \<and>
           (map_of kvs ''author_name'' = None \<longrightarrow>
              cell_at df i ''author_name'' = Some (JStr [])) \<and>
           joined_with '', '' [''A'', ''B''] = ''A, B''"
proof -
  let ?df = "DataFrame np (map cleaned_row items)"
  let ?col = "projected items ''author_name''"
  have texts: "\<forall>v \<in> set ?col. keeps_objects v"
    by (auto simp: projected_def cleaned_row_def dict_get_def)
  from assms(2) have "?col \<noteq> []" by (auto simp: projected_def)
  with texts have "list_ex keeps_objects ?col"
    by (cases ?col) (auto simp: list_ex_iff)
  then have kept: "convert_column np ?col = ?col"
    by (simp add: convert_column_def)
  have "cell_at ?df i ''author_name'' = Some (convert_column np ?col ! i)"
    by (rule cleaned_frame_cell [OF assms(2)]) (simp add: book_columns_def)
  with kept assms(2,3)
  have cell: "cell_at ?df i ''author_name'' = Some (JStr (joined_with '', '' (author_names (JObj kvs))))"
    by (simp add: projected_nth cleaned_row_def dict_get_def)
  have names: "map text_of (map JStr names :: 'a json list) = names"
    by (induction names) simp_all
  have list: "cell_at ?df i ''author_name'' = Some (JStr (joined_with '', '' names))"
    if "map_of kvs ''author_name'' = Some (JArr (map JStr names))"
    using cell that names by simp
  have empty: "cell_at ?df i ''author_name'' = Some (JStr [])"
    if "map_of kvs ''author_name'' = Some (JArr [])"
    using cell that by (simp add: joined_with_def)
  have absent: "cell_at ?df i ''author_name'' = Some (JStr [])"
    if "map_of kvs ''author_name'' = None"
    using cell that by (simp add: joined_with_def)
  have ab: "joined_with '', '' [''A'', ''B''] = ''A, B''"
    by (simp add: joined_with_def)
  from clean_data_raw_records [OF assms(1), of np c] list empty absent ab show ?thesis
    by (intro exI [of _ "\<lparr>data = JArr items, cleaned_data = Some ?df\<rparr>"] exI [of _ ?df]) simp
qed

theorem clean_data_author_name_joined_witness:
  "\<exists>df. clean_data repr_floats
          \<lparr>data = JArr [JObj [(''title'', JStr ''T''), (''author_name'', JArr [JStr ''A'', JStr ''B''])],
                        JObj [(''author_name'', JArr [])],
                        JObj [(''title'', JStr ''U'')]],
           cleaned_data = None\<rparr> =
        Inr (\<lparr>data = JArr [JObj [(''title'', JStr ''T''), (''author_name'', JArr [JStr ''A'', JStr ''B''])],
                           JObj [(''author_name'', JArr [])],
                           JObj [(''title'', JStr ''U'')]],
              cleaned_data = Some df\<rparr>, df) \<and>
      cell_at df 0 ''author_name'' = Some (JStr ''A, B'') \<and>
      cell_at df 1 ''author_name'' = Some (JStr []) \<and>
      cell_at df 2 ''author_name'' = Some (JStr [])"
proof -
  let ?ab = "[(''title'', JStr ''T''), (''author_name'', JArr [JStr ''A'', JStr ''B''])]
               :: (string \<times> string json) list"
  let ?none = "[(''author_name'', JArr [])] :: (string \<times> string json) list"
  let ?absent = "[(''title'', JStr ''U'')] :: (string \<times> string json) list"
  let ?items = "[JObj ?ab, JObj ?none, JObj ?absent]"
  let ?self = "\<lparr>data = JArr ?items, cleaned_data = None\<rparr>"
  have raw: "list_all raw_record ?items" by simp
  have ab: "map_of ?ab ''author_name'' = Some (JArr (map JStr [''A'', ''B'']))" by simp
  have none: "map_of ?none ''author_name'' = Some (JArr [])" by simp
  have absent: "map_of ?absent ''author_name'' = None" by simp
  from clean_data_author_name_joined
    [OF raw, of 0 ?ab repr_floats None "[''A'', ''B'']"] ab
  obtain s0 d0 where r0: "clean_data repr_floats ?self = Inr (s0, d0)"
    "cleaned_data s0 = Some d0"
    "cell_at d0 0 ''author_name'' = Some (JStr (joined_with '', '' [''A'', ''B'']))"
    by auto
  from clean_data_author_name_joined [OF raw, of 1 ?none repr_floats None "[]"] none
  obtain s1 d1 where r1: "clean_data repr_floats ?self = Inr (s1, d1)"
    "cell_at d1 1 ''author_name'' = Some (JStr [])"
    by auto
  from clean_data_author_name_joined [OF raw, of 2 ?absent repr_floats None "[]"] absent
  obtain s2 d2 where r2: "clean_data repr_floats ?self = Inr (s2, d2)"
    "cell_at d2 2 ''author_name'' = Some (JStr [])"
    by auto
  from r0(1) r1(1) r2(1) have same: "d1 = d0" "d2 = d0" by simp_all
  from r0(1) have "s0 = ?self\<lparr>cleaned_data := Some d0\<rparr>"
    by (auto simp: clean_data_def Let_def split: sum.splits)
  with r0(1) have "clean_data repr_floats ?self =
      Inr (\<lparr>data = JArr ?items, cleaned_data = Some d0\<rparr>, d0)"
    by simp
  moreover from r0(3) have "cell_at d0 0 ''author_name'' = Some (JStr ''A, B'')"
    by (simp add: joined_with_def)
  ultimately show ?thesis
    using r1(2) r2(2) same by (intro exI [of _ d0] conjI) simp_all
qed

text \<open>
  Outside the raw records \<open>clean_data\<close> raises: an \<open>author_name\<close> that cannot be
  joined is a \<open>TypeError\<close>, an item that is no dictionary an \<open>AttributeError\<close>, and
  data that cannot be iterated a \<open>TypeError\<close>.
\<close>

lemma clean_data_raises:
  "clean_data np (BookCleaner_init (JArr [JObj [(''title'', JStr ''T1''), (''author_name'', JInt 5)]])) =
     Inl TypeError"
  "clean_data np (BookCleaner_init (JArr [JObj [(''author_name'', JArr [JStr ''A'', JNull])]])) =
     Inl TypeError"
  "clean_data np (BookCleaner_init (JArr [JObj [(''title'', JStr ''T1'')], JInt 3])) =
     Inl AttributeError"
  "clean_data np (BookCleaner_init (JInt 3)) = Inl TypeError"
  by (simp_all add: BookCleaner_init_def clean_data_def flattened_item_def dict_get_def
      str_join_def)

lemma clean_data_frame:
  assumes "clean_data np self = Inr (self', f)"
  shows "\<exists>items cleaned. py_iter (data self) = Inr items \<and> length cleaned = length items \<and>
           (\<forall>r \<in> set cleaned. map fst r = book_columns) \<and>
           f = DataFrame np cleaned \<and> self' = self\<lparr>cleaned_data := Some f\<rparr>"
proof -
  from assms obtain items cleaned where items: "py_iter (data self) = Inr items"
    and loop: "clean_loop items [] = Inr cleaned"
    and f: "f = DataFrame np cleaned" "self' = self\<lparr>cleaned_data := Some f\<rparr>"
    by (auto simp: clean_data_def Let_def split: sum.splits)
  from clean_loop_keys [OF loop] have "length cleaned = length items"
    and "\<forall>r \<in> set cleaned. map fst r = book_columns"
    by auto
  with items f show ?thesis by blast
qed

lemma column_present: "k \<in> set (columns f) \<Longrightarrow> column f k \<noteq> None"
  by (simp add: column_def)

lemma clean_data_nonempty_columns:
  assumes "items \<noteq> []"
    and "clean_data np \<lparr>data = JArr items, cleaned_data = c\<rparr> = Inr (self', f)"
  shows "columns f = book_columns \<and> length (rows f) = length items \<and>
      (\<forall>name \<in> set book_columns.
         column f name \<noteq> None \<and>
         countplot np f name \<noteq> Inl (ValueError (''Could not interpret value '' @ name)))"
proof -
  from clean_data_frame [OF assms(2)]
  obtain cleaned where len: "length cleaned = length items"
    and keys: "\<forall>r \<in> set cleaned. map fst r = book_columns"
    and f: "f = DataFrame np cleaned"
    by auto
  from len assms(1) have ne: "cleaned \<noteq> []" by auto
  from DataFrame_columns [OF keys, of np] ne f have cols: "columns f = book_columns" by simp
  from f len have "length (rows f) = length items" by (simp add: DataFrame_length_rows)
  moreover have "column f name \<noteq> None \<and>
      countplot np f name \<noteq> Inl (ValueError (''Could not interpret value '' @ name))"
    if "name \<in> set book_columns" for name
  proof -
    from that cols have "column f name \<noteq> None" by (simp add: column_present)
    then show ?thesis
      by (auto simp: countplot_def split: option.splits)
  qed
  ultimately show ?thesis using cols by blast
qed

text \<open>
  C10. On the empty sequence \<open>clean_data\<close> returns a frame with no row and no column, so
  that no column can be selected from it and the count plot of a column is refused;
  whenever it returns on a non-empty sequence, the frame has exactly the four columns
  \<open>title\<close>, \<open>author_name\<close>, \<open>first_publish_year\<close>, \<open>ratings\<close>, one row per record, and
  each of the four can be selected.
\<close>

theorem clean_data_empty_input_has_no_columns:
  "clean_data np \<lparr>data = JArr [], cleaned_data = c\<rparr> =
     Inr (\<lparr>data = JArr [], cleaned_data = Some \<lparr>columns = [], rows = []\<rparr>\<rparr>,
          \<lparr>columns = [], rows = []\<rparr>) \<and>
   column \<lparr>columns = [], rows = []\<rparr> k = None \<and>
   countplot np \<lparr>columns = [], rows = []\<rparr> k = Inl (ValueError (''Could not interpret value '' @ k)) \<and>
   (\<forall>items self' f.
      items \<noteq> [] \<and> clean_data np \<lparr>data = JArr items, cleaned_data = c\<rparr> = Inr (self', f) \<longrightarrow>
      columns f = book_columns \<and> length (rows f) = length items \<and>
      (\<forall>name \<in> set book_columns.
         column f name \<noteq> None \<and>
         countplot np f name \<noteq> Inl (ValueError (''Could not interpret value '' @ name))))"
proof (intro conjI)
  show "clean_data np \<lparr>data = JArr [], cleaned_data = c\<rparr> =
     Inr (\<lparr>data = JArr [], cleaned_data = Some \<lparr>columns = [], rows = []\<rparr>\<rparr>,
          \<lparr>columns = [], rows = []\<rparr>)"
    by (simp add: clean_data_def DataFrame_def Let_def)
next
  show "column \<lparr>columns = [], rows = []\<rparr> k = None"
    by (simp add: column_def)
next
  show "countplot np \<lparr>columns = [], rows = []\<rparr> k = Inl (ValueError (''Could not interpret value '' @ k))"
    by (simp add: countplot_def column_def)
next
  show "\<forall>items self' f.
      items \<noteq> [] \<and> clean_data np \<lparr>data = JArr items, cleaned_data = c\<rparr> = Inr (self', f) \<longrightarrow>
      columns f = book_columns \<and> length (rows f) = length items \<and>
      (\<forall>name \<in> set book_columns.
         column f name \<noteq> None \<and>
         countplot np f name \<noteq> Inl (ValueError (''Could not interpret value '' @ name)))"
    using clean_data_nonempty_columns by blast
qed

lemma clean_data_dune:
  "clean_data repr_floats
     \<lparr>data = JArr [JObj [(''title'', JStr ''Dune''), (''first_publish_year'', JInt 1965)]],
      cleaned_data = None\<rparr> =
     Inr (\<lparr>data = JArr [JObj [(''title'', JStr ''Dune''), (''first_publish_year'', JInt 1965)]],
           cleaned_data = Some \<lparr>columns = book_columns,
                                 rows = [[JStr ''Dune'', JStr [], JInt 1965, JStr []]]\<rparr>\<rparr>,
          \<lparr>columns = book_columns, rows = [[JStr ''Dune'', JStr [], JInt 1965, JStr []]]\<rparr>)"
  by (simp add: clean_data_def flattened_item_def dict_get_def str_join_def DataFrame_def
      convert_column_def book_columns_def Let_def)

theorem clean_data_empty_input_has_no_columns_witness:
  "[JObj [(''title'', JStr ''Dune''), (''first_publish_year'', JInt 1965)] :: string json] \<noteq> [] \<and>
   clean_data repr_floats
     \<lparr>data = JArr [JObj [(''title'', JStr ''Dune''), (''first_publish_year'', JInt 1965)]],
      cleaned_data = None\<rparr> =
     Inr (\<lparr>data = JArr [JObj [(''title'', JStr ''Dune''), (''first_publish_year'', JInt 1965)]],
           cleaned_data = Some \<lparr>columns = book_columns,
                                 rows = [[JStr ''Dune'', JStr [], JInt 1965, JStr []]]\<rparr>\<rparr>,
          \<lparr>columns = book_columns, rows = [[JStr ''Dune'', JStr [], JInt 1965, JStr []]]\<rparr>) \<and>
   column \<lparr>columns = book_columns,
           rows = [[JStr ''Dune'', JStr [], JInt 1965, JStr []]] :: string json list list\<rparr>
     ''first_publish_year'' \<noteq> None \<and>
   column (\<lparr>columns = [], rows = []\<rparr> :: string frame) ''first_publish_year'' = None"
proof -
  let ?items = "[JObj [(''title'', JStr ''Dune''), (''first_publish_year'', JInt 1965)] :: string json]"
  let ?f = "\<lparr>columns = book_columns,
             rows = [[JStr ''Dune'', JStr [], JInt 1965, JStr []]] :: string json list list\<rparr>"
  let ?self' = "\<lparr>data = JArr ?items, cleaned_data = Some ?f\<rparr>"
  note run = clean_data_dune
  have ne: "?items \<noteq> []" by simp
  note c10 = clean_data_empty_input_has_no_columns [of repr_floats None "''first_publish_year''"]
  from c10 have "column (\<lparr>columns = [], rows = []\<rparr> :: string frame) ''first_publish_year'' = None"
    by blast
  moreover from c10 ne run have "\<forall>name \<in> set book_columns. column ?f name \<noteq> None"
    by blast
  then have "column ?f ''first_publish_year'' \<noteq> None"
    by (simp add: book_columns_def)
  ultimately show ?thesis using ne run by blast
qed

section \<open>Properties of the fetcher\<close>

text \<open>
  C3. \<open>extract_books\<close> lets no transport or HTTP-status exception out. When the request
  raises, or the response has an error status (400 to 599), it prints the error and
  returns the empty list. When the request succeeds and the body decodes to an object,
  it returns what the object holds under \<open>docs\<close>, or the empty list when the object has
  no such key.
\<close>

theorem extract_books_degrades_to_empty:
  "(requests_get (api_url self) = Raised e \<longrightarrow>
      extract_books requests_get self =
        Inr (JArr [], [ErrorLine ''Error fetching books: '' (RequestException e)])) \<and>
   (requests_get (api_url self) = Response r \<and> 400 \<le> status_code r \<and> status_code r < 600 \<longrightarrow>
      extract_books requests_get self =
        Inr (JArr [],
             [ErrorLine ''Error fetching books: '' (RequestException (HTTPError (status_code r)))])) \<and>
   (requests_get (api_url self) = Response r \<and> \<not> (400 \<le> status_code r \<and> status_code r < 600) \<and>
    json_body r = Some (JObj kvs) \<longrightarrow>
      extract_books requests_get self =
        Inr (case map_of kvs ''docs'' of None \<Rightarrow> JArr [] | Some docs \<Rightarrow> docs, [])) \<and>
   (\<forall>x. extract_books requests_get self \<noteq> Inl (RequestException x))"
proof (intro conjI impI allI)
  assume "requests_get (api_url self) = Raised e"
  then show "extract_books requests_get self =
      Inr (JArr [], [ErrorLine ''Error fetching books: '' (RequestException e)])"
    by (simp add: extract_books_def extract_books_try_def)
next
  assume "requests_get (api_url self) = Response r \<and> 400 \<le> status_code r \<and> status_code r < 600"
  then show "extract_books requests_get self =
      Inr (JArr [],
           [ErrorLine ''Error fetching books: '' (RequestException (HTTPError (status_code r)))])"
    by (simp add: extract_books_def extract_books_try_def raise_for_status_def)
next
  assume "requests_get (api_url self) = Response r \<and>
    \<not> (400 \<le> status_code r \<and> status_code r < 600) \<and> json_body r = Some (JObj kvs)"
  then show "extract_books requests_get self =
      Inr (case map_of kvs ''docs'' of None \<Rightarrow> JArr [] | Some docs \<Rightarrow> docs, [])"
    by (auto simp: extract_books_def extract_books_try_def raise_for_status_def
        response_json_def dict_get_def)
next
  fix x
  show "extract_books requests_get self \<noteq> Inl (RequestException x)"
    by (auto simp: extract_books_def split: sum.splits exn.splits)
qed

theorem extract_books_degrades_to_empty_witness:
  "extract_books (\<lambda>url. Raised ConnectionError :: unit reply) \<lparr>api_url = ''http://unreachable.invalid''\<rparr> =
     Inr (JArr [], [ErrorLine ''Error fetching books: '' (RequestException ConnectionError)]) \<and>
   extract_books (\<lambda>url. Response \<lparr>status_code = 503, json_body = None :: unit json option\<rparr>)
       \<lparr>api_url = ''https://openlibrary.org/search.json''\<rparr> =
     Inr (JArr [], [ErrorLine ''Error fetching books: '' (RequestException (HTTPError 503))]) \<and>
   extract_books
       (\<lambda>url. Response \<lparr>status_code = 200,
                          json_body = Some (JObj [(''numFound'', JInt 1),
                                                  (''docs'', JArr [JObj [(''title'', JStr ''T1'')]])]
                                             :: unit json)\<rparr>)
       \<lparr>api_url = ''https://openlibrary.org/search.json''\<rparr> =
     Inr (JArr [JObj [(''title'', JStr ''T1'')]], []) \<and>
   extract_books
       (\<lambda>url. Response \<lparr>status_code = 200, json_body = Some (JObj [(''numFound'', JInt 0)] :: unit json)\<rparr>)
       \<lparr>api_url = ''https://openlibrary.org/search.json''\<rparr> =
     Inr (JArr [], [])"
proof -
  let ?down = "\<lambda>url :: string. Raised ConnectionError :: unit reply"
  let ?busy = "\<lambda>url :: string. Response \<lparr>status_code = 503, json_body = None :: unit json option\<rparr>"
  let ?kvs1 = "[(''numFound'', JInt 1), (''docs'', JArr [JObj [(''title'', JStr ''T1'')]])]
                 :: (string \<times> unit json) list"
  let ?kvs0 = "[(''numFound'', JInt 0)] :: (string \<times> unit json) list"
  let ?ok1 = "\<lambda>url :: string. Response \<lparr>status_code = 200, json_body = Some (JObj ?kvs1)\<rparr>"
  let ?ok0 = "\<lambda>url :: string. Response \<lparr>status_code = 200, json_body = Some (JObj ?kvs0)\<rparr>"
  let ?a = "\<lparr>api_url = ''http://unreachable.invalid''\<rparr>"
  let ?b = "\<lparr>api_url = ''https://openlibrary.org/search.json''\<rparr>"
  have "extract_books ?down ?a =
      Inr (JArr [], [ErrorLine ''Error fetching books: '' (RequestException ConnectionError)])"
    using extract_books_degrades_to_empty [of ?down ?a ConnectionError] by simp
  moreover have "extract_books ?busy ?b =
      Inr (JArr [], [ErrorLine ''Error fetching books: '' (RequestException (HTTPError 503))])"
    using extract_books_degrades_to_empty
      [of ?busy ?b _ "\<lparr>status_code = 503, json_body = None\<rparr>"] by simp
  moreover have "extract_books ?ok1 ?b = Inr (JArr [JObj [(''title'', JStr ''T1'')]], [])"
    using extract_books_degrades_to_empty
      [of ?ok1 ?b _ "\<lparr>status_code = 200, json_body = Some (JObj ?kvs1)\<rparr>" ?kvs1] by simp
  moreover have "extract_books ?ok0 ?b = Inr (JArr [], [])"
    using extract_books_degrades_to_empty
      [of ?ok0 ?b _ "\<lparr>status_code = 200, json_body = Some (JObj ?kvs0)\<rparr>" ?kvs0] by simp
  ultimately show ?thesis by blast
qed

text \<open>
  A body that decodes to something else than an object has no \<^verbatim>\<open>get\<close>: the
  \<open>AttributeError\<close> is no \<^verbatim>\<open>RequestException\<close> and goes on to the caller.
\<close>

lemma extract_books_body_not_an_object:
  "extract_books (\<lambda>url. Response \<lparr>status_code = 200, json_body = Some (JArr [])\<rparr>) self =
     Inl AttributeError"
  by (simp add: extract_books_def extract_books_try_def raise_for_status_def response_json_def)

section \<open>Properties of the database sink\<close>

text \<open>A string without the scheme separator is refused, whatever the installation.\<close>

lemma create_engine_not_a_url: "create_engine dialect ''sqlite'' = Inl ArgumentError"
  by (simp add: create_engine_def)

text \<open>
  C4, as the code has it. The constructor raises the configuration error when
  \<open>DB_CONN_URL\<close> is absent or empty. When the variable holds a non-empty string the
  constructor hands it to \<open>create_engine\<close>: if that returns an engine, construction
  succeeds and stores the URL, the engine and the given frame; if it raises, its
  exception is the constructor's.
\<close>

theorem BookDatabase_init_configuration:
  "(getenv ''DB_CONN_URL'' = None \<or> getenv ''DB_CONN_URL'' = Some [] \<longrightarrow>
      BookDatabase_init dialect getenv frame =
        Inl (ValueError ''No connection URL found in environment variables'')) \<and>
   (getenv ''DB_CONN_URL'' = Some url \<and> url \<noteq> [] \<longrightarrow>
      (\<forall>eng. create_engine dialect url = Inr eng \<longrightarrow>
         BookDatabase_init dialect getenv frame = Inr \<lparr>conn_url = url, engine = eng, df = frame\<rparr>) \<and>
      (\<forall>e. create_engine dialect url = Inl e \<longrightarrow>
         BookDatabase_init dialect getenv frame = Inl e))"
  by (auto simp: BookDatabase_init_def)

theorem BookDatabase_init_configuration_witness:
  "BookDatabase_init (\<lambda>u. Inr (Engine u)) (\<lambda>k. None) (\<lparr>columns = [], rows = []\<rparr> :: unit frame) =
     Inl (ValueError ''No connection URL found in environment variables'') \<and>
   BookDatabase_init (\<lambda>u. Inr (Engine u)) [''DB_CONN_URL'' \<mapsto> []]
       (\<lparr>columns = [], rows = []\<rparr> :: unit frame) =
     Inl (ValueError ''No connection URL found in environment variables'') \<and>
   BookDatabase_init (\<lambda>u. Inr (Engine u)) [''DB_CONN_URL'' \<mapsto> ''sqlite:///books.db'']
       (\<lparr>columns = [], rows = []\<rparr> :: unit frame) =
     Inr \<lparr>conn_url = ''sqlite:///books.db'', engine = Engine ''sqlite:///books.db'',
          df = \<lparr>columns = [], rows = []\<rparr>\<rparr> \<and>
   BookDatabase_init (\<lambda>u. Inr (Engine u)) [''DB_CONN_URL'' \<mapsto> ''books.db'']
       (\<lparr>columns = [], rows = []\<rparr> :: unit frame) =
     Inl ArgumentError"
proof -
  let ?any = "\<lambda>u. Inr (Engine u) :: exn + engine"
  let ?f = "\<lparr>columns = [], rows = []\<rparr> :: unit frame"
  have "BookDatabase_init ?any (\<lambda>k. None) ?f =
      Inl (ValueError ''No connection URL found in environment variables'')"
    using BookDatabase_init_configuration [of "\<lambda>k. None" ?any ?f] by simp
  moreover have "BookDatabase_init ?any [''DB_CONN_URL'' \<mapsto> []] ?f =
      Inl (ValueError ''No connection URL found in environment variables'')"
    using BookDatabase_init_configuration [of "[''DB_CONN_URL'' \<mapsto> []]" ?any ?f] by simp
  moreover have "BookDatabase_init ?any [''DB_CONN_URL'' \<mapsto> ''sqlite:///books.db''] ?f =
      Inr \<lparr>conn_url = ''sqlite:///books.db'', engine = Engine ''sqlite:///books.db'', df = ?f\<rparr>"
    using BookDatabase_init_configuration
      [of "[''DB_CONN_URL'' \<mapsto> ''sqlite:///books.db'']" ?any ?f "''sqlite:///books.db''"]
    by (simp add: create_engine_def)
  moreover have "BookDatabase_init ?any [''DB_CONN_URL'' \<mapsto> ''books.db''] ?f = Inl ArgumentError"
    using BookDatabase_init_configuration
      [of "[''DB_CONN_URL'' \<mapsto> ''books.db'']" ?any ?f "''books.db''"]
    by (simp add: create_engine_def)
  ultimately show ?thesis by blast
qed

text \<open>
  C4, as the specification words it, fails: with \<open>DB_CONN_URL\<close> set to \<open>sqlite\<close>, which
  is no URL, construction does not succeed, and the exception is not the configuration
  error.
\<close>

theorem BookDatabase_init_set_but_fails_counterexample:
  "[''DB_CONN_URL'' \<mapsto> ''sqlite''] ''DB_CONN_URL'' = Some ''sqlite'' \<and>
   BookDatabase_init (\<lambda>u. Inr (Engine u)) [''DB_CONN_URL'' \<mapsto> ''sqlite'']
       (\<lparr>columns = book_columns, rows = [[JStr ''T1'', JStr ''X'', JInt 2001, JInt 5]]\<rparr> :: unit frame) =
     Inl ArgumentError"
  by (simp add: BookDatabase_init_def create_engine_def)

text \<open>
  C5. \<open>query\<close> returns normally on every statement, whatever the database does with it:
  when reading raises, the error is printed; when reading returns a frame, its first
  five rows are printed; either way the sink, and the frame it stores, are as before.
\<close>

theorem query_swallows_errors:
  "\<exists>db' out.
     query read_sql self q db = Inr (self, db', out) \<and>
     (\<forall>e. fst (read_sql q (engine self) db) = Inl e \<longrightarrow>
        out = [ErrorLine ''Error querying the database: '' e]) \<and>
     (\<forall>f. fst (read_sql q (engine self) db) = Inr f \<longrightarrow>
        out = [FrameText (head f)] \<and> columns (head f) = columns f \<and>
        rows (head f) = take 5 (rows f))"
proof (cases "read_sql q (engine self) db")
  case (Pair res db')
  then show ?thesis
    by (cases res) (simp_all add: query_def head_def)
qed

theorem query_swallows_errors_witness:
  "query (\<lambda>q eng db. (Inl (DatabaseError ''no such table: Books''), db))
       \<lparr>conn_url = ''sqlite:///books.db'', engine = Engine ''sqlite:///books.db'',
        df = \<lparr>columns = book_columns, rows = []\<rparr> :: unit frame\<rparr>
       ''SELECT * FROM Books;'' (\<lambda>t. None) =
     Inr (\<lparr>conn_url = ''sqlite:///books.db'', engine = Engine ''sqlite:///books.db'',
           df = \<lparr>columns = book_columns, rows = []\<rparr>\<rparr>,
          (\<lambda>t. None),
          [ErrorLine ''Error querying the database: '' (DatabaseError ''no such table: Books'')]) \<and>
   query (\<lambda>q eng db. (Inr \<lparr>columns = [''n''], rows = map (\<lambda>i. [JInt i]) [1, 2, 3, 4, 5, 6, 7]\<rparr>, db))
       \<lparr>conn_url = ''sqlite:///books.db'', engine = Engine ''sqlite:///books.db'',
        df = \<lparr>columns = book_columns, rows = []\<rparr> :: unit frame\<rparr>
       ''SELECT n FROM numbers;'' (\<lambda>t. None) =
     Inr (\<lparr>conn_url = ''sqlite:///books.db'', engine = Engine ''sqlite:///books.db'',
           df = \<lparr>columns = book_columns, rows = []\<rparr>\<rparr>,
          (\<lambda>t. None),
          [FrameText \<lparr>columns = [''n''], rows = [[JInt 1], [JInt 2], [JInt 3], [JInt 4], [JInt 5]]\<rparr>])"
proof -
  let ?sink = "\<lparr>conn_url = ''sqlite:///books.db'', engine = Engine ''sqlite:///books.db'',
                df = \<lparr>columns = book_columns, rows = []\<rparr> :: unit frame\<rparr>"
  let ?bad = "\<lambda>(q :: string) (eng :: engine) (db :: unit database).
                (Inl (DatabaseError ''no such table: Books'') :: exn + unit frame, db)"
  let ?seven = "\<lparr>columns = [''n''], rows = map (\<lambda>i. [JInt i]) [1, 2, 3, 4, 5, 6, 7]\<rparr> :: unit frame"
  let ?good = "\<lambda>(q :: string) (eng :: engine) (db :: unit database).
                 (Inr ?seven :: exn + unit frame, db)"
  from query_swallows_errors [of ?bad ?sink "''SELECT * FROM Books;''" "\<lambda>t. None"]
  obtain db1 out1 where bad: "query ?bad ?sink ''SELECT * FROM Books;'' (\<lambda>t. None) = Inr (?sink, db1, out1)"
    "out1 = [ErrorLine ''Error querying the database: '' (DatabaseError ''no such table: Books'')]"
    by auto
  from query_swallows_errors [of ?good ?sink "''SELECT n FROM numbers;''" "\<lambda>t. None"]
  obtain db2 out2 where good: "query ?good ?sink ''SELECT n FROM numbers;'' (\<lambda>t. None) = Inr (?sink, db2, out2)"
    "out2 = [FrameText (head ?seven)]"
    by auto
  from bad have "db1 = (\<lambda>t. None)" by (simp add: query_def)
  moreover from good have "db2 = (\<lambda>t. None)" by (simp add: query_def)
  moreover have "head ?seven =
      \<lparr>columns = [''n''], rows = [[JInt 1], [JInt 2], [JInt 3], [JInt 4], [JInt 5]]\<rparr>"
    by (simp add: head_def)
  ultimately show ?thesis using bad good by simp
qed

lemma to_sql_replace:
  "refuses be f = None \<Longrightarrow> to_sql be f name IfReplace False db = Inr (db(name \<mapsto> stores be f))"
  by (simp add: to_sql_def create_table_def split: option.split)

lemma to_sql_replace_refused:
  "refuses be f = Some e \<Longrightarrow> to_sql be f name IfReplace False db = Inl e"
  by (simp add: to_sql_def create_table_def split: option.split)

text \<open>
  C6. Writing the table is idempotent. When the database accepts the stored frame,
  \<open>dataframe_to_db\<close> returns, the table \<open>LibBooks\<close> then holds exactly the rows of the
  frame as the database stores them and every other table is untouched, and a second
  write right after the first leaves the database as the first left it. When the
  database refuses the frame, the write raises what the database raises.
\<close>

theorem dataframe_to_db_idempotent:
  "(refuses be (BookDatabase.df self) = None \<longrightarrow>
      (\<exists>db1 out.
         dataframe_to_db be self db = Inr (db1, out) \<and>
         dataframe_to_db be self db1 = Inr (db1, out) \<and>
         db1 ''LibBooks'' = Some (stores be (BookDatabase.df self)) \<and>
         (\<forall>t. t \<noteq> ''LibBooks'' \<longrightarrow> db1 t = db t))) \<and>
   (\<forall>e. refuses be (BookDatabase.df self) = Some e \<longrightarrow> dataframe_to_db be self db = Inl e)"
  by (simp add: dataframe_to_db_def to_sql_replace to_sql_replace_refused)

theorem dataframe_to_db_idempotent_witness:
  "dataframe_to_db plain_dbms
       \<lparr>conn_url = ''sqlite:///books.db'', engine = Engine ''sqlite:///books.db'',
        df = \<lparr>columns = book_columns, rows = [[JStr ''T1'', JStr ''X'', JInt 2001, JInt 5]]\<rparr>\<rparr>
       [''LibBooks'' \<mapsto> \<lparr>columns = book_columns, rows = [[JStr ''Old'', JStr [], JInt 1999, JStr []]]\<rparr>,
        ''Other'' \<mapsto> \<lparr>columns = [''n''], rows = [[JInt 1]]\<rparr>] =
     Inr ([''LibBooks'' \<mapsto> \<lparr>columns = book_columns, rows = [[JStr ''T1'', JStr ''X'', JInt 2001, JInt 5]]\<rparr>,
           ''Other'' \<mapsto> \<lparr>columns = [''n''], rows = [[JInt 1]]\<rparr>],
          [Line ''Data inserted into the database.'']) \<and>
   dataframe_to_db plain_dbms
       \<lparr>conn_url = ''sqlite:///books.db'', engine = Engine ''sqlite:///books.db'',
        df = \<lparr>columns = book_columns, rows = [[JStr ''T1'', JStr ''X'', JInt 2001, JInt 5]]\<rparr>\<rparr>
       [''LibBooks'' \<mapsto> \<lparr>columns = book_columns, rows = [[JStr ''T1'', JStr ''X'', JInt 2001, JInt 5]]\<rparr>,
        ''Other'' \<mapsto> \<lparr>columns = [''n''], rows = [[JInt 1]]\<rparr>] =
     Inr ([''LibBooks'' \<mapsto> \<lparr>columns = book_columns, rows = [[JStr ''T1'', JStr ''X'', JInt 2001, JInt 5]]\<rparr>,
           ''Other'' \<mapsto> \<lparr>columns = [''n''], rows = [[JInt 1]]\<rparr>],
          [Line ''Data inserted into the database.'']) \<and>
   dataframe_to_db plain_dbms
       \<lparr>conn_url = ''sqlite:///books.db'', engine = Engine ''sqlite:///books.db'',
        df = \<lparr>columns = [], rows = []\<rparr>\<rparr>
       [''LibBooks'' \<mapsto> \<lparr>columns = book_columns, rows = [[JStr ''Old'', JStr [], JInt 1999, JStr []]]\<rparr>] =
     Inl (DatabaseError ''no columns'')"
proof -
  let ?new = "\<lparr>columns = book_columns, rows = [[JStr ''T1'', JStr ''X'', JInt 2001, JInt 5]]\<rparr> :: string frame"
  let ?old = "\<lparr>columns = book_columns, rows = [[JStr ''Old'', JStr [], JInt 1999, JStr []]]\<rparr> :: string frame"
  let ?other = "\<lparr>columns = [''n''], rows = [[JInt 1]]\<rparr> :: string frame"
  let ?sink = "\<lparr>conn_url = ''sqlite:///books.db'', engine = Engine ''sqlite:///books.db'', df = ?new\<rparr>"
  let ?empty = "\<lparr>conn_url = ''sqlite:///books.db'', engine = Engine ''sqlite:///books.db'',
                 df = \<lparr>columns = [], rows = []\<rparr> :: string frame\<rparr>"
  let ?db = "[''LibBooks'' \<mapsto> ?old, ''Other'' \<mapsto> ?other]"
  let ?db' = "[''LibBooks'' \<mapsto> ?new, ''Other'' \<mapsto> ?other]"
  have ok: "refuses plain_dbms (BookDatabase.df ?sink) = None"
    by (simp add: plain_dbms_def book_columns_def)
  have no: "refuses plain_dbms (BookDatabase.df ?empty) = Some (DatabaseError ''no columns'')"
    by (simp add: plain_dbms_def)
  from dataframe_to_db_idempotent [of plain_dbms ?sink ?db] ok
  obtain db1 out where w: "dataframe_to_db plain_dbms ?sink ?db = Inr (db1, out)"
    "dataframe_to_db plain_dbms ?sink db1 = Inr (db1, out)"
    "db1 ''LibBooks'' = Some (stores plain_dbms ?new)" "\<forall>t. t \<noteq> ''LibBooks'' \<longrightarrow> db1 t = ?db t"
    by auto
  have "db1 = ?db'"
  proof
    fix t
    show "db1 t = ?db' t"
      using w(3,4) by (cases "t = ''LibBooks''") (simp_all add: plain_dbms_def)
  qed
  moreover from w(1) ok have "out = [Line ''Data inserted into the database.'']"
    by (auto simp: dataframe_to_db_def to_sql_replace)
  moreover from dataframe_to_db_idempotent [of plain_dbms ?empty "[''LibBooks'' \<mapsto> ?old]"] no
  have "dataframe_to_db plain_dbms ?empty [''LibBooks'' \<mapsto> ?old] = Inl (DatabaseError ''no columns'')"
    by blast
  ultimately show ?thesis using w(1,2) by simp
qed

text \<open>Appending instead would grow the table with every write.\<close>

lemma to_sql_append_grows:
  assumes "db name = Some old" and "columns old = columns f" and "refuses be f = None"
  shows "\<exists>db1. to_sql be f name IfAppend False db = Inr db1 \<and>
           map_option (\<lambda>t. length (rows t)) (db1 name) =
             Some (length (rows old) + length (rows (stores be f)))"
  using assms by (simp add: to_sql_def)

section \<open>Properties of the exports\<close>

text \<open>
  C8. On a cleaner on which \<open>clean_data\<close> has not run, both exports end with the
  \<open>AttributeError\<close> of the missing structure. Once \<open>clean_data\<close> has returned, the
  structure is stored, neither export ends with that error, and when the path is not a
  directory both write the stored structure and print the confirmation.
\<close>

theorem exports_require_clean_data:
  "save_data_into_csv cell_text (BookCleaner_init d) filename fs = Inl AttributeError \<and>
   save_data_into_json (BookCleaner_init d) filename fs = Inl AttributeError \<and>
   (\<forall>self self' f.
      clean_data np self = Inr (self', f) \<longrightarrow>
      cleaned_data self' = Some f \<and>
      save_data_into_csv cell_text self' filename fs \<noteq> Inl AttributeError \<and>
      save_data_into_json self' filename fs \<noteq> Inl AttributeError \<and>
      (fs filename \<noteq> Some Directory \<longrightarrow>
         save_data_into_csv cell_text self' filename fs =
           Inr (fs(filename \<mapsto> CsvFile (to_csv cell_text False f)),
                [Line (''Data saved to '' @ filename)]) \<and>
         save_data_into_json self' filename fs =
           Inr (fs(filename \<mapsto> JsonFile (to_json f)),
                [Line (''Data saved to '' @ filename)])))"
proof (intro conjI allI impI)
  show "save_data_into_csv cell_text (BookCleaner_init d) filename fs = Inl AttributeError"
    by (simp add: save_data_into_csv_def BookCleaner_init_def)
next
  show "save_data_into_json (BookCleaner_init d) filename fs = Inl AttributeError"
    by (simp add: save_data_into_json_def BookCleaner_init_def)
next
  fix self self' :: "'a BookCleaner" and f
  assume run: "clean_data np self = Inr (self', f)"
  from clean_data_frame [OF run] show stored: "cleaned_data self' = Some f" by auto
  from stored show "save_data_into_csv cell_text self' filename fs \<noteq> Inl AttributeError"
    by (auto simp: save_data_into_csv_def write_file_def split: option.splits content.splits)
  from stored show "save_data_into_json self' filename fs \<noteq> Inl AttributeError"
    by (auto simp: save_data_into_json_def write_file_def split: option.splits content.splits)
  assume "fs filename \<noteq> Some Directory"
  with stored show "save_data_into_csv cell_text self' filename fs =
      Inr (fs(filename \<mapsto> CsvFile (to_csv cell_text False f)), [Line (''Data saved to '' @ filename)])"
    by (auto simp: save_data_into_csv_def write_file_def split: option.splits content.splits)
  from stored \<open>fs filename \<noteq> Some Directory\<close> show "save_data_into_json self' filename fs =
      Inr (fs(filename \<mapsto> JsonFile (to_json f)), [Line (''Data saved to '' @ filename)])"
    by (auto simp: save_data_into_json_def write_file_def split: option.splits content.splits)
qed

theorem exports_require_clean_data_witness:
  "save_data_into_csv text_of (BookCleaner_init (JArr [JObj [(''title'', JStr ''T1'')] :: string json]))
       ''books_cleaned.csv'' (\<lambda>p. None) = Inl AttributeError \<and>
   save_data_into_json (BookCleaner_init (JArr [JObj [(''title'', JStr ''T1'')] :: string json]))
       ''books_cleaned.csv'' (\<lambda>p. None) = Inl AttributeError \<and>
   clean_data repr_floats (BookCleaner_init (JArr [JObj [(''title'', JStr ''T1'')] :: string json])) =
     Inr (\<lparr>data = JArr [JObj [(''title'', JStr ''T1'')]],
           cleaned_data = Some \<lparr>columns = book_columns, rows = [[JStr ''T1'', JStr [], JStr [], JStr []]]\<rparr>\<rparr>,
          \<lparr>columns = book_columns, rows = [[JStr ''T1'', JStr [], JStr [], JStr []]]\<rparr>) \<and>
   save_data_into_csv text_of
       \<lparr>data = JArr [JObj [(''title'', JStr ''T1'')] :: string json],
        cleaned_data = Some \<lparr>columns = book_columns, rows = [[JStr ''T1'', JStr [], JStr [], JStr []]]\<rparr>\<rparr>
       ''books_cleaned.csv'' (\<lambda>p. None) =
     Inr ([''books_cleaned.csv'' \<mapsto> CsvFile [book_columns, [''T1'', [], [], []]]],
          [Line ''Data saved to books_cleaned.csv'']) \<and>
   save_data_into_json
       \<lparr>data = JArr [JObj [(''title'', JStr ''T1'')] :: string json],
        cleaned_data = Some \<lparr>columns = book_columns, rows = [[JStr ''T1'', JStr [], JStr [], JStr []]]\<rparr>\<rparr>
       ''books_cleaned.csv'' (\<lambda>p. None) =
     Inr ([''books_cleaned.csv'' \<mapsto>
             JsonFile (JArr [JObj [(''title'', JStr ''T1''), (''author_name'', JStr []),
                                   (''first_publish_year'', JStr []), (''ratings'', JStr [])]])],
          [Line ''Data saved to books_cleaned.csv''])"
proof -
  let ?d = "JArr [JObj [(''title'', JStr ''T1'')] :: string json]"
  let ?f = "\<lparr>columns = book_columns, rows = [[JStr ''T1'', JStr [], JStr [], JStr []]]\<rparr> :: string frame"
  let ?self' = "\<lparr>data = ?d, cleaned_data = Some ?f\<rparr>"
  let ?fs = "(\<lambda>p. None) :: string files"
  note c8 = exports_require_clean_data [of text_of ?d "''books_cleaned.csv''" ?fs repr_floats]
  have run: "clean_data repr_floats (BookCleaner_init ?d) = Inr (?self', ?f)"
    by (simp add: BookCleaner_init_def clean_data_def flattened_item_def dict_get_def
        str_join_def DataFrame_def convert_column_def book_columns_def Let_def)
  have free: "?fs ''books_cleaned.csv'' \<noteq> Some Directory" by simp
  from c8 have "save_data_into_csv text_of (BookCleaner_init ?d) ''books_cleaned.csv'' ?fs = Inl AttributeError"
    and "save_data_into_json (BookCleaner_init ?d) ''books_cleaned.csv'' ?fs = Inl AttributeError"
    by blast+
  moreover from c8 run free
  have "save_data_into_csv text_of ?self' ''books_cleaned.csv'' ?fs =
      Inr (?fs(''books_cleaned.csv'' \<mapsto> CsvFile (to_csv text_of False ?f)),
           [Line (''Data saved to '' @ ''books_cleaned.csv'')])"
    and "save_data_into_json ?self' ''books_cleaned.csv'' ?fs =
      Inr (?fs(''books_cleaned.csv'' \<mapsto> JsonFile (to_json ?f)),
           [Line (''Data saved to '' @ ''books_cleaned.csv'')])"
    by blast+
  moreover have "to_csv text_of False ?f = [book_columns, [''T1'', [], [], []]]"
    by (simp add: to_csv_def enumerate_eq_zip)
  moreover have "to_json ?f =
      JArr [JObj [(''title'', JStr ''T1''), (''author_name'', JStr []),
                  (''first_publish_year'', JStr []), (''ratings'', JStr [])]]"
    by (simp add: to_json_def book_columns_def)
  ultimately show ?thesis using run by simp
qed

section \<open>Properties of the count plot\<close>

text \<open>The decimal text of an integer determines the integer.\<close>

lemma digits_distinct: "distinct ''0123456789''"
  by simp

lemma str_of_nat_not_empty: "str_of_nat n \<noteq> []"
  by (subst str_of_nat.simps) simp

lemma str_of_nat_digits: "set (str_of_nat n) \<subseteq> set ''0123456789''"
proof (induction n rule: str_of_nat.induct)
  case (1 n)
  show ?case
  proof (cases "n < 10")
    case True
    then have "''0123456789'' ! n \<in> set ''0123456789''"
      by (intro nth_mem) simp
    with True show ?thesis by (subst str_of_nat.simps) simp
  next
    case False
    have "n mod 10 < 10" by simp
    then have "''0123456789'' ! (n mod 10) \<in> set ''0123456789''"
      by (intro nth_mem) simp
    with False "1.IH" show ?thesis by (subst str_of_nat.simps) simp
  qed
qed

lemma digit_inj: "m < 10 \<Longrightarrow> n < 10 \<Longrightarrow> ''0123456789'' ! m = ''0123456789'' ! n \<Longrightarrow> m = n"
  using nth_eq_iff_index_eq [OF digits_distinct, of m n] by simp

lemma str_of_nat_inj: "str_of_nat m = str_of_nat n \<Longrightarrow> m = n"
proof (induction m arbitrary: n rule: str_of_nat.induct)
  case (1 m)
  show ?case
  proof (cases "m < 10")
    case m: True
    show ?thesis
    proof (cases "n < 10")
      case True
      with m "1.prems" show ?thesis
        by (simp add: str_of_nat.simps [of m] str_of_nat.simps [of n] digit_inj)
    next
      case False
      with m "1.prems" str_of_nat_not_empty [of "n div 10"] show ?thesis
        by (simp add: str_of_nat.simps [of m] str_of_nat.simps [of n])
    qed
  next
    case m: False
    show ?thesis
    proof (cases "n < 10")
      case True
      with m "1.prems" str_of_nat_not_empty [of "m div 10"] show ?thesis
        by (simp add: str_of_nat.simps [of m] str_of_nat.simps [of n])
    next
      case False
      with m "1.prems" have eq: "str_of_nat (m div 10) = str_of_nat (n div 10)"
        and d: "''0123456789'' ! (m mod 10) = ''0123456789'' ! (n mod 10)"
        by (simp_all add: str_of_nat.simps [of m] str_of_nat.simps [of n])
      from "1.IH" [OF m eq] have "m div 10 = n div 10" .
      moreover from d have "m mod 10 = n mod 10"
        by (intro digit_inj) simp_all
      ultimately show ?thesis by (metis div_mult_mod_eq)
    qed
  qed
qed

lemma str_of_nat_no_minus: "str_of_nat n \<noteq> CHR ''-'' # s"
proof
  assume "str_of_nat n = CHR ''-'' # s"
  then have "CHR ''-'' \<in> set (str_of_nat n)" by simp
  with str_of_nat_digits [of n] have "CHR ''-'' \<in> set ''0123456789''" by (rule subsetD)
  then show False by simp
qed

lemma str_of_int_inj: "str_of_int i = str_of_int j \<Longrightarrow> i = j"
proof -
  assume eq: "str_of_int i = str_of_int j"
  show ?thesis
  proof (cases "i < 0")
    case i: True
    show ?thesis
    proof (cases "j < 0")
      case True
      with i eq have "str_of_nat (nat (- i)) = str_of_nat (nat (- j))"
        by (simp add: str_of_int_def)
      then have "nat (- i) = nat (- j)" by (rule str_of_nat_inj)
      with i True show ?thesis by simp
    next
      case False
      with i eq have "str_of_nat (nat j) = CHR ''-'' # str_of_nat (nat (- i))"
        by (simp add: str_of_int_def)
      with str_of_nat_no_minus show ?thesis by blast
    qed
  next
    case i: False
    show ?thesis
    proof (cases "j < 0")
      case True
      with i eq have "str_of_nat (nat i) = CHR ''-'' # str_of_nat (nat (- j))"
        by (simp add: str_of_int_def)
      with str_of_nat_no_minus show ?thesis by blast
    next
      case False
      with i eq have "str_of_nat (nat i) = str_of_nat (nat j)"
        by (simp add: str_of_int_def)
      then have "nat i = nat j" by (rule str_of_nat_inj)
      with i False show ?thesis by simp
    qed
  qed
qed

lemma str_of_int_not_empty: "str_of_int i \<noteq> []"
  by (simp add: str_of_int_def str_of_nat_not_empty)

lemma distinct_unique: "distinct (unique xs)"
  by (induction xs) (auto simp: set_unique)

lemma count_bars:
  "distinct us \<Longrightarrow>
   count (mset (map (\<lambda>v. (v, h v)) us)) (v, n) = (if v \<in> set us \<and> n = h v then 1 else 0)"
  by (induction us) auto

lemma count_list_drop_other: "v \<noteq> w \<Longrightarrow> count_list (filter (\<lambda>u. u \<noteq> w) xs) v = count_list xs v"
  by (induction xs) auto

lemma count_list_map_inj:
  "inj_on f (insert v (set xs)) \<Longrightarrow> count_list (map f xs) (f v) = count_list xs v"
proof (induction xs)
  case Nil
  show ?case by simp
next
  case (Cons x xs)
  from Cons.prems have "inj_on f (insert v (set xs))"
    by (auto intro: inj_on_subset)
  moreover have "f x = f v \<longleftrightarrow> x = v"
    using inj_onD [OF Cons.prems, of x v] by auto
  ultimately show ?case using Cons.IH by simp
qed

lemma year_cell_missing: "year_cell v \<Longrightarrow> missing np v \<longleftrightarrow> v = JNull"
  by (cases v) simp_all

lemma year_cell_text: "year_cell v \<Longrightarrow> v \<noteq> JNull \<Longrightarrow> category_text np v \<noteq> None"
  by (cases v) simp_all

lemma texts_of_defined:
  "\<forall>v \<in> set vals. category_text np v \<noteq> None \<Longrightarrow>
   texts_of np vals = Some (map (\<lambda>v. the (category_text np v)) vals)"
  by (induction vals) auto

lemma countplot_bars:
  assumes "column f x = Some cells" and "list_all year_cell cells"
    and "inj_on (category_text np) (set cells - {JNull})"
  shows "\<exists>bs. countplot np f x = Inr bs \<and>
           (\<forall>t n. count bs (t, n) =
                   (if \<exists>v \<in> set cells. v \<noteq> JNull \<and> category_text np v = Some t \<and>
                                        n = count_list cells v
                    then 1 else 0)) \<and>
           size bs = card (set cells - {JNull})"
proof -
  let ?vals = "filter (\<lambda>v. v \<noteq> JNull) cells"
  let ?t = "\<lambda>v. the (category_text np v)"
  let ?ts = "map ?t ?vals"
  let ?bs = "mset (map (\<lambda>t. (t, count_list ?ts t)) (unique ?ts))"
  from assms(2) have years: "\<forall>v \<in> set cells. year_cell v"
    by (simp add: list_all_iff)
  then have "filter (\<lambda>v. \<not> missing np v) cells = ?vals"
    by (intro filter_cong refl) (simp add: year_cell_missing)
  moreover have defined: "\<forall>v \<in> set ?vals. category_text np v \<noteq> None"
    using years by (auto simp: year_cell_text)
  then have "texts_of np ?vals = Some ?ts"
    by (rule texts_of_defined)
  ultimately have run: "countplot np f x = Inr ?bs"
    using assms(1) by (simp add: countplot_def)
  have vals: "set ?vals = set cells - {JNull}" by auto
  have inj: "inj_on ?t (set ?vals)"
  proof (rule inj_onI)
    fix v w
    assume v: "v \<in> set ?vals" and w: "w \<in> set ?vals" and eq: "?t v = ?t w"
    from v w defined obtain a b where "category_text np v = Some a" "category_text np w = Some b"
      by blast
    with eq have "category_text np v = category_text np w" by simp
    with assms(3) v w vals show "v = w" by (auto dest: inj_onD)
  qed
  have cnt: "count_list ?ts (?t v) = count_list cells v" if "v \<in> set ?vals" for v
  proof -
    from that have "insert v (set ?vals) = set ?vals" by auto
    with inj have "count_list ?ts (?t v) = count_list ?vals v"
      by (intro count_list_map_inj) simp
    moreover from that have "v \<noteq> JNull" by simp
    ultimately show ?thesis by (simp add: count_list_drop_other)
  qed
  have "count ?bs (t, n) =
      (if \<exists>v \<in> set cells. v \<noteq> JNull \<and> category_text np v = Some t \<and> n = count_list cells v
       then 1 else 0)" for t n
  proof -
    have "(t \<in> set ?ts \<and> n = count_list ?ts t) \<longleftrightarrow>
        (\<exists>v \<in> set cells. v \<noteq> JNull \<and> category_text np v = Some t \<and> n = count_list cells v)"
      (is "?l \<longleftrightarrow> ?r")
    proof
      assume ?l
      then obtain v where v: "v \<in> set ?vals" and t: "t = ?t v" and n: "n = count_list ?ts t"
        by auto
      from v defined obtain a where a: "category_text np v = Some a" by blast
      with t have "category_text np v = Some t" by simp
      moreover from n t cnt [OF v] have "n = count_list cells v" by simp
      ultimately show ?r using v by auto
    next
      assume ?r
      then obtain v where v: "v \<in> set ?vals" and t: "category_text np v = Some t"
        and n: "n = count_list cells v"
        by auto
      from t have "t = ?t v" by simp
      with v n cnt [OF v] show ?l by auto
    qed
    with count_bars [OF distinct_unique, of "count_list ?ts" ?ts t n] show ?thesis
      by (simp add: set_unique)
  qed
  moreover have "size ?bs = card (set cells - {JNull})"
  proof -
    have "size ?bs = card (set ?ts)"
      using distinct_card [OF distinct_unique, of ?ts] by (simp add: set_unique)
    also have "\<dots> = card (?t ` set ?vals)" by simp
    also have "\<dots> = card (set ?vals)" by (rule card_image [OF inj])
    finally show ?thesis by (simp only: vals)
  qed
  ultimately show ?thesis using run by blast
qed

text \<open>
  A column of integers, empty strings and missing cells, which is what a year column
  holds by the data model, has no two distinct values of the same text.
\<close>

lemma year_texts_inj:
  assumes "\<forall>v \<in> set cells. (\<exists>i. v = JInt i) \<or> v = JStr [] \<or> v = JNull"
  shows "inj_on (category_text np) (set cells - {JNull})"
proof (rule inj_onI)
  fix v w
  assume v: "v \<in> set cells - {JNull}" and w: "w \<in> set cells - {JNull}"
    and eq: "category_text np v = category_text np w"
  from v assms have v': "(\<exists>i. v = JInt i) \<or> v = JStr []" by auto
  from w assms have w': "(\<exists>i. w = JInt i) \<or> w = JStr []" by auto
  show "v = w"
  proof (cases "v = JStr []")
    case True
    show ?thesis
    proof (cases "w = JStr []")
      case w: True
      with True show ?thesis by simp
    next
      case False
      with w' obtain j where "w = JInt j" by blast
      with True eq str_of_int_not_empty [of j] show ?thesis by simp
    qed
  next
    case False
    with v' obtain i where i: "v = JInt i" by blast
    show ?thesis
    proof (cases "w = JStr []")
      case True
      with i eq str_of_int_not_empty [of i] show ?thesis by simp
    next
      case False
      with w' obtain j where j: "w = JInt j" by blast
      with i eq have "str_of_int i = str_of_int j" by simp
      then have "i = j" by (rule str_of_int_inj)
      with i j show ?thesis by simp
    qed
  qed
qed

text \<open>
  C9. When the frame has the column \<open>first_publish_year\<close>, holding integers, texts or
  nothing, no two distinct values of which have the same text, and the output directory
  can be made, the plot is written to \<open>Visualizations/countplot.png\<close> with exactly one
  bar per distinct year of the column, as high as the number of rows with that year.
  Rows with the years 2001, 2001, 2002 give two bars: 2001 with height 2 and 2002 with
  height 1.
\<close>

theorem plot_publish_year_count_bars:
  "(column (BookVisualizer.df self) ''first_publish_year'' = Some cells \<and>
    list_all year_cell cells \<and>
    inj_on (category_text np) (set cells - {JNull}) \<and>
    (fs ''Visualizations'' = None \<or> fs ''Visualizations'' = Some Directory) \<and>
    fs ''Visualizations/countplot.png'' \<noteq> Some Directory \<longrightarrow>
    (\<exists>fs' ch.
       plot_publish_year_count np self fs =
         (fs', Inr [Line ''Plot saved to Visualizations/countplot.png'']) \<and>
       fs' ''Visualizations/countplot.png'' = Some (PngFile ch) \<and>
       (\<forall>t n. count (bars ch) (t, n) =
               (if \<exists>v \<in> set cells. v \<noteq> JNull \<and> category_text np v = Some t \<and>
                                    n = count_list cells v
                then 1 else 0)) \<and>
       size (bars ch) = card (set cells - {JNull}))) \<and>
   countplot np
     \<lparr>columns = book_columns,
      rows = [[JStr ''A'', JStr ''X'', JInt 2001, JInt 5],
              [JStr ''B'', JStr ''Y'', JInt 2001, JInt 4],
              [JStr ''C'', JStr ''Z'', JInt 2002, JInt 3]]\<rparr>
     ''first_publish_year'' = Inr {#(''2001'', 2), (''2002'', 1)#}"
proof (intro conjI impI)
  assume a: "column (BookVisualizer.df self) ''first_publish_year'' = Some cells \<and>
    list_all year_cell cells \<and>
    inj_on (category_text np) (set cells - {JNull}) \<and>
    (fs ''Visualizations'' = None \<or> fs ''Visualizations'' = Some Directory) \<and>
    fs ''Visualizations/countplot.png'' \<noteq> Some Directory"
  then obtain bs where bs: "countplot np (BookVisualizer.df self) ''first_publish_year'' = Inr bs"
    and cnt: "\<forall>t n. count bs (t, n) =
                (if \<exists>v \<in> set cells. v \<noteq> JNull \<and> category_text np v = Some t \<and>
                                     n = count_list cells v
                 then 1 else 0)"
    and sz: "size bs = card (set cells - {JNull})"
    using countplot_bars by blast
  let ?ch = "\<lparr>chart_title = ''Number of Books by First Publish Year'',
              xlabel = ''First Publish Year'', ylabel = ''Number of Books'', bars = bs\<rparr>"
  from a obtain fs1 where mk: "makedirs ''Visualizations'' True fs = Inr fs1"
    and png: "fs1 ''Visualizations/countplot.png'' \<noteq> Some Directory"
    by (auto simp: makedirs_def)
  from png have wr: "write_file ''Visualizations/countplot.png'' (PngFile ?ch) fs1 =
      Inr (fs1(''Visualizations/countplot.png'' \<mapsto> PngFile ?ch))"
    by (auto simp: write_file_def split: option.splits content.splits)
  from mk bs wr have "plot_publish_year_count np self fs =
      (fs1(''Visualizations/countplot.png'' \<mapsto> PngFile ?ch),
       Inr [Line ''Plot saved to Visualizations/countplot.png''])"
    by (simp add: plot_publish_year_count_def)
  with cnt sz show "\<exists>fs' ch.
       plot_publish_year_count np self fs =
         (fs', Inr [Line ''Plot saved to Visualizations/countplot.png'']) \<and>
       fs' ''Visualizations/countplot.png'' = Some (PngFile ch) \<and>
       (\<forall>t n. count (bars ch) (t, n) =
               (if \<exists>v \<in> set cells. v \<noteq> JNull \<and> category_text np v = Some t \<and>
                                    n = count_list cells v
                then 1 else 0)) \<and>
       size (bars ch) = card (set cells - {JNull})"
    by (intro exI [of _ "fs1(''Visualizations/countplot.png'' \<mapsto> PngFile ?ch)"] exI [of _ ?ch]) simp
next
  have "str_of_int 2001 = ''2001''" "str_of_int 2002 = ''2002''"
    by (simp_all add: str_of_int_def str_of_nat_more str_of_nat_digit)
  then show "countplot np
     \<lparr>columns = book_columns,
      rows = [[JStr ''A'', JStr ''X'', JInt 2001, JInt 5],
              [JStr ''B'', JStr ''Y'', JInt 2001, JInt 4],
              [JStr ''C'', JStr ''Z'', JInt 2002, JInt 3]]\<rparr>
     ''first_publish_year'' = Inr {#(''2001'', 2), (''2002'', 1)#}"
    by (simp add: countplot_def column_def book_columns_def dict_get_def)
qed

theorem plot_publish_year_count_bars_witness:
  "\<exists>fs' ch.
     plot_publish_year_count repr_floats
       \<lparr>df = \<lparr>columns = book_columns,
               rows = [[JStr ''A'', JStr ''X'', JInt 2001, JInt 5],
                       [JStr ''B'', JStr ''Y'', JInt 2001, JInt 4],
                       [JStr ''C'', JStr ''Z'', JInt 2002, JInt 3]]\<rparr>\<rparr>
       (\<lambda>p. None) =
       (fs', Inr [Line ''Plot saved to Visualizations/countplot.png'']) \<and>
     fs' ''Visualizations/countplot.png'' = Some (PngFile ch) \<and>
     count (bars ch) (''2001'', 2) = 1 \<and>
     count (bars ch) (''2002'', 1) = 1 \<and>
     count (bars ch) (''2001'', 1) = 0 \<and>
     size (bars ch) = 2"
proof -
  let ?f = "\<lparr>columns = book_columns,
             rows = [[JStr ''A'', JStr ''X'', JInt 2001, JInt 5],
                     [JStr ''B'', JStr ''Y'', JInt 2001, JInt 4],
                     [JStr ''C'', JStr ''Z'', JInt 2002, JInt 3 :: string json]]\<rparr>"
  let ?cells = "[JInt 2001, JInt 2001, JInt 2002] :: string json list"
  let ?fs = "(\<lambda>p. None) :: string files"
  have texts: "str_of_int 2001 = ''2001''" "str_of_int 2002 = ''2002''"
    by (simp_all add: str_of_int_def str_of_nat_more str_of_nat_digit)
  have col: "column (BookVisualizer.df \<lparr>df = ?f\<rparr>) ''first_publish_year'' = Some ?cells"
    by (simp add: column_def book_columns_def dict_get_def)
  have years: "list_all year_cell ?cells" by simp
  have inj: "inj_on (category_text repr_floats) (set ?cells - {JNull})"
    by (simp add: texts)
  have dir: "?fs ''Visualizations'' = None \<or> ?fs ''Visualizations'' = Some Directory" by simp
  have png: "?fs ''Visualizations/countplot.png'' \<noteq> Some Directory" by simp
  from plot_publish_year_count_bars [of "\<lparr>df = ?f\<rparr>" ?cells repr_floats ?fs] col years inj dir png
  obtain fs' ch where w:
    "plot_publish_year_count repr_floats \<lparr>df = ?f\<rparr> ?fs =
       (fs', Inr [Line ''Plot saved to Visualizations/countplot.png''])"
    "fs' ''Visualizations/countplot.png'' = Some (PngFile ch)"
    "\<forall>t n. count (bars ch) (t, n) =
       (if \<exists>v \<in> set ?cells. v \<noteq> JNull \<and> category_text repr_floats v = Some t \<and>
                             n = count_list ?cells v
        then 1 else 0)"
    "size (bars ch) = card (set ?cells - {JNull})"
    by blast
  from w(3) have "count (bars ch) (''2001'', 2) = 1" by (simp add: texts)
  moreover from w(3) have "count (bars ch) (''2002'', 1) = 1" by (simp add: texts)
  moreover from w(3) have "count (bars ch) (''2001'', 1) = 0" by (simp add: texts)
  moreover from w(4) have "size (bars ch) = 2" by simp
  ultimately show ?thesis using w(1,2) by blast
qed

section \<open>Writing CSV and reading it back\<close>

lemma map_enumerate_snd: "map (\<lambda>(i, r). g r) (enumerate n xs) = map g xs"
  by (induction xs arbitrary: n) simp_all

lemma to_csv_no_index: "to_csv cell_text False f = columns f # map (map cell_text) (rows f)"
  by (simp add: to_csv_def map_enumerate_snd)

lemma read_csv_rectangular:
  assumes "h \<noteq> []" and "distinct h" and "[] \<notin> set h"
    and "\<forall>r \<in> set body. length r = length h"
  shows "read_csv cell_value (h # body) = Some (Inr \<lparr>columns = h, rows = map (map cell_value) body\<rparr>)"
proof -
  from assms(1,4) have "\<forall>r \<in> set body. r \<noteq> []" by auto
  then have "filter (\<lambda>r. r \<noteq> []) body = body" by (simp add: filter_True)
  with assms show ?thesis by (simp add: read_csv_def list_all_iff)
qed

lemma clean_data_rows_width:
  assumes "clean_data np self = Inr (self', f)"
  shows "\<forall>r \<in> set (rows f). length r = length (columns f)"
proof -
  from clean_data_frame [OF assms] obtain cleaned where "f = DataFrame np cleaned"
    by auto
  then show ?thesis by (simp add: DataFrame_rows_width)
qed

lemma clean_data_rows_columns:
  assumes "clean_data np self = Inr (self', f)" and "rows f \<noteq> []"
  shows "columns f = book_columns"
proof -
  from clean_data_frame [OF assms(1)]
  obtain cleaned where keys: "\<forall>r \<in> set cleaned. map fst r = book_columns"
    and f: "f = DataFrame np cleaned"
    by auto
  from DataFrame_length_rows [of np cleaned] f assms(2) have "cleaned \<noteq> []" by auto
  with DataFrame_columns [OF keys, of np] f show ?thesis by simp
qed

text \<open>
  C7, as the code has it. A structure with at least one row that \<open>clean_data\<close> produced
  (that is, one produced from a non-empty sequence), written by \<open>save_data_into_csv\<close> to
  a path that is not a directory and read back, gives a structure with the same number
  of rows and the same columns; each cell is the value read from the text written for
  it, so its type may have changed.
\<close>

theorem csv_round_trip:
  assumes "clean_data np self = Inr (self', f)"
    and "rows f \<noteq> []"
    and "fs filename \<noteq> Some Directory"
  shows "\<exists>fs' out recs g.
           save_data_into_csv cell_text self' filename fs = Inr (fs', out) \<and>
           fs' filename = Some (CsvFile recs) \<and>
           read_csv cell_value recs = Some (Inr g) \<and>
           length (rows g) = length (rows f) \<and>
           set (columns g) = set (columns f) \<and>
           rows g = map (map (\<lambda>v. cell_value (cell_text v))) (rows f)"
proof -
  let ?recs = "to_csv cell_text False f"
  let ?g = "\<lparr>columns = columns f, rows = map (map cell_value) (map (map cell_text) (rows f))\<rparr>"
  from clean_data_frame [OF assms(1)] have stored: "cleaned_data self' = Some f" by auto
  with assms(3) have save: "save_data_into_csv cell_text self' filename fs =
      Inr (fs(filename \<mapsto> CsvFile ?recs), [Line (''Data saved to '' @ filename)])"
    by (auto simp: save_data_into_csv_def write_file_def split: option.splits content.splits)
  have cols: "columns f = book_columns"
    by (rule clean_data_rows_columns [OF assms(1,2)])
  have width: "\<forall>r \<in> set (map (map cell_text) (rows f)). length r = length (columns f)"
    using clean_data_rows_width [OF assms(1)] cols by auto
  have "read_csv cell_value (columns f # map (map cell_text) (rows f)) = Some (Inr ?g)"
    by (rule read_csv_rectangular [OF _ _ _ width]) (simp_all add: cols book_columns_def)
  then have "read_csv cell_value ?recs = Some (Inr ?g)"
    by (simp add: to_csv_no_index)
  with save show ?thesis
    by (intro exI [of _ "fs(filename \<mapsto> CsvFile ?recs)"] exI [of _ ?recs] exI [of _ ?g]
        exI [of _ "[Line (''Data saved to '' @ filename)]"]) (simp add: comp_def)
qed

theorem csv_round_trip_witness:
  "clean_data repr_floats (BookCleaner_init
      (JArr [JObj [(''title'', JStr ''T1''), (''author_name'', JArr [JStr ''X''])],
             JObj [(''title'', JStr ''T2'')] :: string json])) =
     Inr (\<lparr>data = JArr [JObj [(''title'', JStr ''T1''), (''author_name'', JArr [JStr ''X''])],
                        JObj [(''title'', JStr ''T2'')]],
           cleaned_data = Some \<lparr>columns = book_columns,
                                 rows = [[JStr ''T1'', JStr ''X'', JStr [], JStr []],
                                         [JStr ''T2'', JStr [], JStr [], JStr []]]\<rparr>\<rparr>,
          \<lparr>columns = book_columns,
           rows = [[JStr ''T1'', JStr ''X'', JStr [], JStr []],
                   [JStr ''T2'', JStr [], JStr [], JStr []]]\<rparr>) \<and>
   (\<exists>fs' out recs g.
      save_data_into_csv text_of
        \<lparr>data = JArr [JObj [(''title'', JStr ''T1''), (''author_name'', JArr [JStr ''X''])],
                       JObj [(''title'', JStr ''T2'')] :: string json],
         cleaned_data = Some \<lparr>columns = book_columns,
                               rows = [[JStr ''T1'', JStr ''X'', JStr [], JStr []],
                                       [JStr ''T2'', JStr [], JStr [], JStr []]]\<rparr>\<rparr>
        ''books_cleaned.csv'' (\<lambda>p. None) = Inr (fs', out) \<and>
      fs' ''books_cleaned.csv'' = Some (CsvFile recs) \<and>
      read_csv (JStr :: string \<Rightarrow> string json) recs = Some (Inr g) \<and>
      length (rows g) = 2 \<and>
      set (columns g) = set book_columns \<and>
      rows g = [[JStr ''T1'', JStr ''X'', JStr [], JStr []], [JStr ''T2'', JStr [], JStr [], JStr []]])"
proof -
  let ?d = "JArr [JObj [(''title'', JStr ''T1''), (''author_name'', JArr [JStr ''X''])],
                  JObj [(''title'', JStr ''T2'')] :: string json]"
  let ?f = "\<lparr>columns = book_columns,
             rows = [[JStr ''T1'', JStr ''X'', JStr [], JStr []],
                     [JStr ''T2'', JStr [], JStr [], JStr []]]\<rparr> :: string frame"
  let ?self' = "\<lparr>data = ?d, cleaned_data = Some ?f\<rparr>"
  let ?fs = "(\<lambda>p. None) :: string files"
  have run: "clean_data repr_floats (BookCleaner_init ?d) = Inr (?self', ?f)"
    by (simp add: BookCleaner_init_def clean_data_def flattened_item_def dict_get_def
        str_join_def DataFrame_def convert_column_def book_columns_def Let_def)
  have ne: "rows ?f \<noteq> []" by simp
  have free: "?fs ''books_cleaned.csv'' \<noteq> Some Directory" by simp
  from csv_round_trip [OF run ne free, where cell_text = text_of
      and cell_value = "JStr :: string \<Rightarrow> string json"]
  obtain fs' out recs g where w:
    "save_data_into_csv text_of ?self' ''books_cleaned.csv'' ?fs = Inr (fs', out)"
    "fs' ''books_cleaned.csv'' = Some (CsvFile recs)"
    "read_csv (JStr :: string \<Rightarrow> string json) recs = Some (Inr g)"
    "length (rows g) = length (rows ?f)"
    "set (columns g) = set (columns ?f)"
    "rows g = map (map (\<lambda>v. JStr (text_of v))) (rows ?f)"
    by blast
  from w(4) have len: "length (rows g) = 2" by simp
  from w(5) have cols: "set (columns g) = set book_columns" by simp
  from w(6) have rg: "rows g =
      [[JStr ''T1'', JStr ''X'', JStr [], JStr []], [JStr ''T2'', JStr [], JStr [], JStr []]]"
    by simp
  from w(1,2,3) len cols rg
  have "\<exists>g. save_data_into_csv text_of ?self' ''books_cleaned.csv'' ?fs = Inr (fs', out) \<and>
      fs' ''books_cleaned.csv'' = Some (CsvFile recs) \<and>
      read_csv (JStr :: string \<Rightarrow> string json) recs = Some (Inr g) \<and>
      length (rows g) = 2 \<and>
      set (columns g) = set book_columns \<and>
      rows g = [[JStr ''T1'', JStr ''X'', JStr [], JStr []], [JStr ''T2'', JStr [], JStr [], JStr []]]"
    by (intro exI [where x = g] conjI)
  then show ?thesis
    by (intro conjI [OF run] exI [where x = fs'] exI [where x = out] exI [where x = recs])
qed

text \<open>
  C7, as the specification words it, fails on the structure \<open>clean_data\<close> produces from
  the empty sequence: the file written holds one blank line, and reading it back raises
  \<open>EmptyDataError\<close> instead of returning a structure.
\<close>

theorem csv_round_trip_empty_counterexample:
  "clean_data repr_floats (BookCleaner_init (JArr [] :: string json)) =
     Inr (\<lparr>data = JArr [], cleaned_data = Some \<lparr>columns = [], rows = []\<rparr>\<rparr>,
          \<lparr>columns = [], rows = []\<rparr>) \<and>
   save_data_into_csv text_of
       \<lparr>data = JArr [] :: string json, cleaned_data = Some \<lparr>columns = [], rows = []\<rparr>\<rparr>
       ''books_cleaned.csv'' (\<lambda>p. None) =
     Inr ([''books_cleaned.csv'' \<mapsto> CsvFile [[]]], [Line ''Data saved to books_cleaned.csv'']) \<and>
   read_csv (JStr :: string \<Rightarrow> string json) [[]] = Some (Inl EmptyDataError)"
  by (simp add: BookCleaner_init_def clean_data_def DataFrame_def Let_def save_data_into_csv_def
      write_file_def to_csv_def read_csv_def)

end
